theory Spec2Isabelle
  imports Complex_Main "HOL-Library.Word" "HOL-Library.Sublist"
begin

unbundle bit_operations_syntax

chapter \<open>The model\<close>

section \<open>SEED: System for Environmental Entity Distribution\<close>

text \<open>
  A shallow embedding of \<^verbatim>\<open>src/DarkMod/SEED.cpp\<close>. C++ \<^verbatim>\<open>float\<close> values are
  modelled as \<^typ>\<open>real\<close> (no rounding), \<^verbatim>\<open>int\<close> counters as \<^typ>\<open>int\<close> (no
  overflow), list indices as \<^typ>\<open>nat\<close>, the random seeds and the flag and colour
  words as \<^typ>\<open>32 word\<close>. Services of the engine that are called but not defined in
  this file (string to number conversion, traces, geometry of boxes, the model
  generator, the entity factory) are parameters of the functions that call them.
  Fields of \<^verbatim>\<open>seed_entity_t\<close>, \<^verbatim>\<open>seed_class_t\<close>, \<^verbatim>\<open>seed_inhibitor_t\<close> and
  \<^verbatim>\<open>model_ofs_t\<close> keep their names behind the prefixes \<open>ent_\<close>, \<open>cls_\<close>, \<open>inh_\<close>
  and \<open>ofs_\<close>.
\<close>

subsection \<open>Numbers and vectors\<close>

text \<open>The conversion \<^verbatim>\<open>(int) f\<close> of a float truncates towards zero.\<close>

definition trunc :: "real \<Rightarrow> int" where
  "trunc f = (if 0 \<le> f then \<lfloor>f\<rfloor> else \<lceil>f\<rceil>)"

text \<open>C's \<^verbatim>\<open>fmod\<close>: the remainder has the sign of the dividend.\<close>

definition fmod :: "real \<Rightarrow> real \<Rightarrow> real" where
  "fmod a b = a - b * of_int (trunc (a / b))"

text \<open>
  An \<^verbatim>\<open>int\<close> of the program has 32 bits. The sum or the product of two of them that
  leaves the range wraps around in two's complement, as the compiled program has it.
\<close>

definition int32 :: "int \<Rightarrow> int" where
  "int32 x = (x + 2147483648) mod 4294967296 - 2147483648"

text \<open>C's integer division truncates towards zero.\<close>

definition cdiv :: "int \<Rightarrow> int \<Rightarrow> int" where
  "cdiv a b = sgn a * sgn b * (\<bar>a\<bar> div \<bar>b\<bar>)"

datatype idVec3 = idVec3 (vx: real) (vy: real) (vz: real)

datatype idAngles = idAngles (pitch: real) (yaw: real) (roll: real)

datatype idMat3 = idMat3 idVec3 idVec3 idVec3

text \<open>\<^verbatim>\<open>idBounds\<close> holds two corner points, \<^verbatim>\<open>idBox\<close> a center, extents and an axis.\<close>

datatype idBounds = idBounds idVec3 idVec3

datatype idBox = idBox idVec3 idVec3 idMat3

definition vec3_origin :: idVec3 where
  "vec3_origin = idVec3 0 0 0"

definition mat3_identity :: idMat3 where
  "mat3_identity = idMat3 (idVec3 1 0 0) (idVec3 0 1 0) (idVec3 0 0 1)"

definition vadd :: "idVec3 \<Rightarrow> idVec3 \<Rightarrow> idVec3" where
  "vadd a b = idVec3 (vx a + vx b) (vy a + vy b) (vz a + vz b)"

definition vsub :: "idVec3 \<Rightarrow> idVec3 \<Rightarrow> idVec3" where
  "vsub a b = idVec3 (vx a - vx b) (vy a - vy b) (vz a - vz b)"

definition vdiv :: "idVec3 \<Rightarrow> real \<Rightarrow> idVec3" where
  "vdiv a d = idVec3 (vx a / d) (vy a / d) (vz a / d)"

definition vneg :: "idVec3 \<Rightarrow> idVec3" where
  "vneg a = idVec3 (- vx a) (- vy a) (- vz a)"

definition vdot :: "idVec3 \<Rightarrow> idVec3 \<Rightarrow> real" where
  "vdot a b = vx a * vx b + vy a * vy b + vz a * vz b"

definition vscale :: "real \<Rightarrow> idVec3 \<Rightarrow> idVec3" where
  "vscale f a = idVec3 (f * vx a) (f * vy a) (f * vz a)"

definition LengthSqr :: "idVec3 \<Rightarrow> real" where
  "LengthSqr a = vx a * vx a + vy a * vy a + vz a * vz a"

text \<open>\<^verbatim>\<open>idBounds( point )\<close> is the degenerate bounds at one point; \<^verbatim>\<open>bounds + t\<close> translates.\<close>

definition idBounds_point :: "idVec3 \<Rightarrow> idBounds" where
  "idBounds_point p = idBounds p p"

definition bounds_translate :: "idBounds \<Rightarrow> idVec3 \<Rightarrow> idBounds" where
  "bounds_translate b t = (case b of idBounds lo hi \<Rightarrow> idBounds (vadd lo t) (vadd hi t))"

subsection \<open>Dictionaries\<close>

type_synonym idDict = "string \<rightharpoonup> string"

definition GetString :: "idDict \<Rightarrow> string \<Rightarrow> string \<Rightarrow> string" where
  "GetString dict key defaultString = (case dict key of Some v \<Rightarrow> v | None \<Rightarrow> defaultString)"

text \<open>\<^verbatim>\<open>idDict::GetFloat\<close> reads the string and converts it; the conversion \<open>atof\<close> is a parameter.\<close>

definition GetFloat :: "(string \<Rightarrow> real) \<Rightarrow> idDict \<Rightarrow> string \<Rightarrow> string \<Rightarrow> real" where
  "GetFloat atof dict key defaultString = atof (GetString dict key defaultString)"

subsection \<open>The two random generators\<close>

text \<open>
  \<^verbatim>\<open>Seed::RandomSeed\<close> advances \<^verbatim>\<open>m_iSeed_2\<close> and returns its low 27 bits (the mask in
  the source is \<^verbatim>\<open>0x7FFFFFF\<close>). The result is the returned value and the new seed.
\<close>

definition RandomSeed :: "32 word \<Rightarrow> 32 word \<times> 32 word" where
  "RandomSeed m_iSeed_2 =
     (let m_iSeed_2 = 1103515245 * m_iSeed_2 + 12345
      in (m_iSeed_2 AND 0x7FFFFFF, m_iSeed_2))"

text \<open>
  Modelled from the spec: the constants \<^verbatim>\<open>Seed::IEEE_ONE\<close> and \<^verbatim>\<open>Seed::IEEE_MASK\<close> are
  declared in \<^verbatim>\<open>SEED.h\<close>, which is not among the sources; the spec says the generator
  assembles an IEEE-754 bit pattern in \<open>[1,2)\<close> and subtracts 1, so the mask keeps the 23
  mantissa bits.
\<close>

definition IEEE_MASK :: "32 word" where
  "IEEE_MASK = 0x007FFFFF"

text \<open>
  \<^verbatim>\<open>Seed::RandomFloat\<close> advances \<^verbatim>\<open>m_iSeed\<close>. The float with exponent 0 and mantissa \<open>m\<close>
  is \<open>1 + m / 2^23\<close>, so the value returned is \<open>m / 2^23\<close>.
\<close>

definition RandomFloat :: "32 word \<Rightarrow> real \<times> 32 word" where
  "RandomFloat m_iSeed =
     (let m_iSeed = 1664525 * m_iSeed + 1013904223
      in (real (unat (m_iSeed AND IEEE_MASK)) / 2 ^ 23, m_iSeed))"

subsection \<open>Seed::ParseFalloff\<close>

text \<open>The two calls of \<^verbatim>\<open>gameLocal.Warning\<close> in \<^verbatim>\<open>ParseFalloff\<close>, with the falloff name they print.\<close>

datatype falloff_warning = Wrong_falloff string | Expect_func_a string

text \<open>
  The out-parameter \<^verbatim>\<open>*func_a\<close> is passed in and returned: it is only written on the
  power/root path. The result is (return code, \<^verbatim>\<open>*func_a\<close>, warnings).
\<close>

definition ParseFalloff ::
  "(string \<Rightarrow> real) \<Rightarrow> idDict \<Rightarrow> string \<Rightarrow> string \<Rightarrow> real \<Rightarrow> int \<times> real \<times> falloff_warning list" where
  "ParseFalloff atof dict defaultName defaultFactor func_a =
     (let falloff = GetString dict ''seed_falloff'' defaultName in
      if falloff = ''none'' then (0, func_a, [])
      else if falloff = ''cutoff'' then (1, func_a, [])
      else if falloff = ''linear'' then (4, func_a, [])
      else if falloff = ''func'' then (5, func_a, [])
      else
        let rc = (0::int);
            rc = (if falloff = ''power'' then 2 else rc);
            rc = (if falloff = ''root'' then 3 else rc)
        in if rc = 0 then (0, func_a, [Wrong_falloff falloff])
           else
             let a = GetFloat atof dict ''seed_func_a'' defaultFactor
             in if a < 2 then (rc, 2, [Expect_func_a falloff]) else (rc, a, []))"

text \<open>
  The reading of the spec's sentence on falloff parsing, with the sixth name as the source
  spells it: the names that are recognized and the kind each one stands for.
\<close>

definition falloff_names :: "string set" where
  "falloff_names = {''none'', ''cutoff'', ''power'', ''root'', ''linear'', ''func''}"

definition falloff_kind :: "string \<Rightarrow> int" where
  "falloff_kind name =
     (if name = ''cutoff'' then 1 else if name = ''power'' then 2 else if name = ''root'' then 3
      else if name = ''linear'' then 4 else if name = ''func'' then 5 else 0)"

definition falloff_spec ::
  "(string \<Rightarrow> real) \<Rightarrow> idDict \<Rightarrow> string \<Rightarrow> string \<Rightarrow> real \<Rightarrow> int \<times> real \<times> falloff_warning list" where
  "falloff_spec atof dict defaultName defaultFactor func_a =
     (let name = GetString dict ''seed_falloff'' defaultName;
          shape = GetFloat atof dict ''seed_func_a'' defaultFactor
      in if name \<in> falloff_names then
           if name = ''power'' \<or> name = ''root'' then
             (falloff_kind name, max 2 shape, if shape < 2 then [Expect_func_a name] else [])
           else (falloff_kind name, func_a, [])
         else (0, func_a, [Wrong_falloff name]))"

subsection \<open>Classes, entities and inhibitors\<close>

record seed_material =
  mat_name :: string
  mat_probability :: real

text \<open>The part of \<^verbatim>\<open>lod_data_t\<close> that this file reads.\<close>

record lod_data =
  lod_bDistCheckXYOnly :: bool
  lod_ModelLOD :: "string list"

text \<open>\<^verbatim>\<open>model_ofs_t\<close>: one member of a combined model.\<close>

record model_ofs =
  ofs_offset :: idVec3
  ofs_angles :: idAngles
  ofs_lod :: int
  ofs_color :: "32 word"
  ofs_scale :: idVec3
  ofs_flags :: int

text \<open>
  An \<^verbatim>\<open>idPhysics_StaticMulti\<close> is modelled as a cell holding the origin and axis that
  \<^verbatim>\<open>SetOrigin\<close> and \<^verbatim>\<open>SetAxis\<close> write and \<^verbatim>\<open>GetOrigin\<close> and \<^verbatim>\<open>GetAxis\<close> read.
\<close>

record physics_obj =
  po_origin :: idVec3
  po_axis :: idMat3

text \<open>
  \<^verbatim>\<open>seed_class_t\<close>. A render model or clip model pointer is a handle (\<open>None\<close> is
  \<^verbatim>\<open>NULL\<close>). \<open>cls_avgSize\<close> is \<open>None\<close> when the float is not a finite number (the
  result of a division by zero).
\<close>

record seed_class =
  cls_classname :: string
  cls_modelname :: string
  cls_pseudo :: bool
  cls_watch :: bool
  cls_maxEntities :: int
  cls_numEntities :: int
  cls_score :: int
  cls_seed :: "32 word"
  cls_cullDist :: real
  cls_spawnDist :: real
  cls_spacing :: real
  cls_bunching :: real
  cls_sink_min :: real
  cls_sink_max :: real
  cls_scale_min :: idVec3
  cls_scale_max :: idVec3
  cls_origin :: idVec3
  cls_offset :: idVec3
  cls_nocollide :: int
  cls_nocombine :: bool
  cls_solid :: bool
  cls_falloff :: int
  cls_floor :: bool
  cls_noinhibit :: bool
  cls_size :: idVec3
  cls_avgSize :: "real option"
  cls_color_min :: idVec3
  cls_color_max :: idVec3
  cls_impulse_min :: idVec3
  cls_impulse_max :: idVec3
  cls_z_invert :: bool
  cls_z_min :: real
  cls_z_max :: real
  cls_z_fadein :: real
  cls_z_fadeout :: real
  cls_defaultProb :: real
  cls_skins :: "nat list"
  cls_materials :: "seed_material list"
  cls_func_x :: real
  cls_func_y :: real
  cls_func_s :: real
  cls_func_a :: real
  cls_func_Xt :: int
  cls_func_Yt :: int
  cls_func_f :: int
  cls_func_min :: real
  cls_func_max :: real
  cls_imgmap :: nat
  cls_map_invert :: bool
  cls_map_scale_x :: real
  cls_map_scale_y :: real
  cls_map_ofs_x :: real
  cls_map_ofs_y :: real
  cls_m_LOD :: "lod_data option"
  cls_hModel :: "nat option"
  cls_clip :: "nat option"
  cls_physicsObj :: "physics_obj option"
  cls_offsets :: "model_ofs list"

text \<open>
  \<^verbatim>\<open>seed_entity_t\<close>. \<open>ent_classIdx\<close> is an \<^typ>\<open>int\<close>: the combiner stores negative
  values in it.
\<close>

record seed_entity =
  ent_skinIdx :: nat
  ent_origin :: idVec3
  ent_angles :: idAngles
  ent_scale :: idVec3
  ent_color :: "32 word"
  ent_flags :: "32 word"
  ent_entity :: nat
  ent_classIdx :: int

record seed_inhibitor =
  inh_origin :: idVec3
  inh_size :: idVec3
  inh_box :: idBox
  inh_inhibit_only :: bool
  inh_falloff :: int
  inh_factor :: real
  inh_classnames :: "string list"

text \<open>
  Modelled from the spec: the flag constants are declared in \<^verbatim>\<open>SEED.h\<close>, which is not
  among the sources; the spec describes them as a bit-flag set \<open>{exists, spawned, hidden,
  is-composite}\<close>, so each is one bit of its own.
\<close>

definition SEED_ENTITY_HIDDEN :: "32 word" where
  "SEED_ENTITY_HIDDEN = 0x0001"

definition SEED_ENTITY_EXISTS :: "32 word" where
  "SEED_ENTITY_EXISTS = 0x0002"

definition SEED_ENTITY_SPAWNED :: "32 word" where
  "SEED_ENTITY_SPAWNED = 0x0004"

definition SEED_ENTITY_PSEUDO :: "32 word" where
  "SEED_ENTITY_PSEUDO = 0x0008"

definition MAX_TRIES :: int where
  "MAX_TRIES = 8"

definition FUNC_DUMMY :: string where
  "FUNC_DUMMY = ''atdm:seed_dummy_static''"

subsection \<open>Seed::AddClassFromEntity: the density of the image map and the average size\<close>

text \<open>
  What the image map manager reports for the map of a class: width, height, the bytes and
  the precomputed density (\<^verbatim>\<open>GetMapDensity\<close>).
\<close>

record image_map =
  img_w :: nat
  img_h :: nat
  img_data :: "nat \<Rightarrow> nat"
  img_density :: real

text \<open>The pixel the resampling loop reads at \<open>(x, y)\<close>, and the sum the two loops build.\<close>

definition resample_pixel :: "image_map \<Rightarrow> real \<Rightarrow> real \<Rightarrow> real \<Rightarrow> real \<Rightarrow> nat \<Rightarrow> nat \<Rightarrow> real" where
  "resample_pixel img xs ys xo yo x y =
     (let wd = real (img_w img); hd = real (img_h img);
          x1 = trunc (fmod (fmod (real x * xs + xo) wd + wd) wd);
          y1 = trunc (fmod (fmod (real y * ys + yo) hd + hd) hd)
      in real (img_data img (nat (int (img_w img) * y1 + x1))))"

definition resample_sum :: "image_map \<Rightarrow> real \<Rightarrow> real \<Rightarrow> real \<Rightarrow> real \<Rightarrow> real" where
  "resample_sum img xs ys xo yo =
     sum_list (map (\<lambda>x. sum_list (map (\<lambda>y. resample_pixel img xs ys xo yo x y) [0..<img_h img]))
                   [0..<img_w img])"

text \<open>
  \<^verbatim>\<open>fImgDensity\<close> as it stands at line 1376. The first argument is \<open>None\<close> when
  \<^verbatim>\<open>SeedClass.imgmap\<close> is 0 (no map configured, or the map could not be loaded); then
  the block from line 1059 to 1148 is skipped and the variable keeps the value of its
  declaration at line 800. For a map without pixels the source divides 0 by 0; the model
  is meant for maps with pixels.
\<close>

definition fImgDensity ::
  "image_map option \<Rightarrow> bool \<Rightarrow> real \<Rightarrow> real \<Rightarrow> real \<Rightarrow> real \<Rightarrow> real" where
  "fImgDensity imgmap map_invert map_scale_x map_scale_y map_ofs_x map_ofs_y =
     (let fImgDensity = (0::real) in
      case imgmap of
        None \<Rightarrow> fImgDensity
      | Some img \<Rightarrow>
          let fImgDensity =
                (if map_ofs_x = 0 \<and> map_ofs_y = 0 \<and> map_scale_x = 1 \<and> map_scale_y = 1
                 then img_density img
                 else (fImgDensity
                         + resample_sum img map_scale_x map_scale_y
                             (real (img_w img) * map_ofs_x) (real (img_h img) * map_ofs_y))
                      / (real (img_w img * img_h img) * 256));
              fImgDensity = (if map_invert then 1 - fImgDensity else fImgDensity)
          in if fImgDensity < 0.001 then 0.001 else fImgDensity)"

text \<open>
  The divisor of line 1376, \<^verbatim>\<open>fBaseDensity * fImgDensity * fDensity\<close>, from the values
  of the spawnargs \<^verbatim>\<open>seed_density\<close> and \<^verbatim>\<open>seed_base_density\<close>.
\<close>

definition density_divisor :: "real \<Rightarrow> real \<Rightarrow> real \<Rightarrow> real" where
  "density_divisor seed_density seed_base_density fImg =
     (let fMin = 0.000001;
          fDensity = max fMin seed_density;
          fBaseDensity = max fMin seed_base_density
      in fBaseDensity * fImg * fDensity)"

text \<open>
  \<^verbatim>\<open>SeedClass.avgSize\<close> (lines 1352 to 1376). A float division by zero does not give a
  finite number: the result is \<open>None\<close>.
\<close>

definition avgSize ::
  "idVec3 \<Rightarrow> real \<Rightarrow> int \<Rightarrow> real \<Rightarrow> real \<Rightarrow> real \<Rightarrow> real option" where
  "avgSize csize spacing falloff seed_density seed_base_density fImg =
     (let size = (max 0.1 (vx csize) + spacing) * (max 0.1 (vy csize) + spacing);
          size = (if 1 \<le> falloff \<and> falloff \<le> 3 then size * (4 / pi) else size);
          divisor = density_divisor seed_density seed_base_density fImg
      in if divisor = 0 then None else Some (size / divisor))"

subsection \<open>Seed::LODBIAS and Seed::ComputeEntityCount\<close>

definition LODBIAS :: "real \<Rightarrow> real" where
  "LODBIAS cv_lod_bias =
     (let lod_bias = cv_lod_bias in
      if lod_bias < 0.8 then
        (if lod_bias < 0.7 then lod_bias * 1.4 else lod_bias * 1.2)
      else if lod_bias > 1.0 then
        (if lod_bias > 2.0 then 0.9 else 1.0) + ((lod_bias - 1.0) / 4.0)
      else lod_bias)"

text \<open>
  What \<^verbatim>\<open>ComputeEntityCount\<close> reads besides the classes: the spawnargs \<^verbatim>\<open>density\<close>,
  \<^verbatim>\<open>lod_scale_density\<close>, \<^verbatim>\<open>max_entities\<close> and \<^verbatim>\<open>lod_scaling_limit\<close>, the cvar
  \<^verbatim>\<open>cv_lod_bias\<close> and the size of the render bounds.
\<close>

record count_args =
  ca_density :: real
  ca_lod_scale_density :: bool
  ca_max_entities :: int
  ca_lod_scaling_limit :: real
  ca_cv_lod_bias :: real
  ca_size :: idVec3

text \<open>
  Lines 1479 to 1498: \<^verbatim>\<open>newNum\<close> for a class that is neither pseudo nor watch. The
  division by \<^verbatim>\<open>iScoreSum\<close> is only reached for such a class, whose score is at least 1
  (line 868), so the sum is not 0 there. The product of line 1483 is one of 32-bit ints.
  With \<^verbatim>\<open>avgSize\<close> infinite the quotient \<^verbatim>\<open>fArea / avgSize\<close> is 0.
\<close>

definition class_count :: "int \<Rightarrow> int \<Rightarrow> real \<Rightarrow> seed_class \<Rightarrow> int" where
  "class_count max_entities iScoreSum fArea c =
     (let newNum = (0::int);
          newNum =
            (if max_entities > 0
             then max 1 (cdiv (int32 (max_entities * cls_score c)) iScoreSum)
             else (case cls_avgSize c of
                     None \<Rightarrow> 0
                   | Some a \<Rightarrow> if a > 0 then trunc (fArea / a) else newNum))
      in if cls_maxEntities c > 0 \<and> newNum > cls_maxEntities c then cls_maxEntities c else newNum)"

fun count_loop :: "int \<Rightarrow> int \<Rightarrow> real \<Rightarrow> seed_class list \<Rightarrow> int \<Rightarrow> seed_class list \<times> int" where
  "count_loop max_entities iScoreSum fArea [] m_iNumEntities = ([], m_iNumEntities)"
| "count_loop max_entities iScoreSum fArea (c # cs) m_iNumEntities =
     (if cls_pseudo c \<or> cls_watch c then
        (let (cs', n) = count_loop max_entities iScoreSum fArea cs m_iNumEntities in (c # cs', n))
      else
        (let newNum = class_count max_entities iScoreSum fArea c;
             (cs', n) =
               count_loop max_entities iScoreSum fArea cs (int32 (m_iNumEntities + newNum))
         in (c\<lparr>cls_numEntities := newNum\<rparr> # cs', n)))"

text \<open>
  \<^verbatim>\<open>Seed::ComputeEntityCount\<close> (lines 1425 to 1519): the classes with their new
  \<^verbatim>\<open>numEntities\<close>, and \<^verbatim>\<open>m_iNumEntities\<close>. The assignment
  \<^verbatim>\<open>max_entities *= LODBIAS()\<close> converts the product back to \<^verbatim>\<open>int\<close>.
\<close>

definition ComputeEntityCount :: "count_args \<Rightarrow> seed_class list \<Rightarrow> seed_class list \<times> int" where
  "ComputeEntityCount a m_Classes =
     (let fDensity = ca_density a;
          fDensity = (if ca_lod_scale_density a then fDensity * LODBIAS (ca_cv_lod_bias a) else fDensity);
          fDensity = max fDensity 0.00001;
          fArea = (vx (ca_size a) + 1) * (vy (ca_size a) + 1);
          fArea = fArea * fDensity;
          max_entities = ca_max_entities a;
          max_entities =
            (if max_entities > 0 \<and> real_of_int max_entities > ca_lod_scaling_limit a
             then trunc (real_of_int max_entities * LODBIAS (ca_cv_lod_bias a)) else max_entities);
          iScoreSum =
            (if ca_max_entities a > 0
             then fold (\<lambda>c iScoreSum. int32 (iScoreSum + cls_score c)) m_Classes 0 else 0);
          (cs, n) = count_loop max_entities iScoreSum fArea m_Classes 0
      in (cs, if max_entities > 0 then max_entities else n))"

subsection \<open>The engine as seen from the SEED\<close>

text \<open>The surface types named in the switch of \<^verbatim>\<open>PrepareEntities\<close>; any other is \<open>SURFTYPE_OTHER\<close>.\<close>

datatype surfTypes_t =
    SURFTYPE_METAL | SURFTYPE_STONE | SURFTYPE_FLESH | SURFTYPE_WOOD | SURFTYPE_CARDBOARD
  | SURFTYPE_LIQUID | SURFTYPE_GLASS | SURFTYPE_PLASTIC | SURFTYPE_15 | SURFTYPE_OTHER

text \<open>
  A live object of the game (\<^verbatim>\<open>idEntity\<close>), as far as the SEED reads and writes it.
  Its physics is its own (the fields \<open>le_origin\<close> and \<open>le_axis\<close>) unless \<open>le_multi\<close>
  names the class whose \<^verbatim>\<open>idPhysics_StaticMulti\<close> was installed by \<^verbatim>\<open>SetPhysics\<close>.
\<close>

record live_entity =
  le_defName :: string
  le_model :: string
  le_skin :: string
  le_color :: idVec3
  le_origin :: idVec3
  le_axis :: idMat3
  le_multi :: "nat option"
  le_velocity :: idVec3
  le_thinking :: bool

text \<open>
  \<^verbatim>\<open>gameLocal\<close>: the entity array, \<^verbatim>\<open>num_entities\<close>, and the entities for which an
  \<^verbatim>\<open>EV_Remove\<close> event is posted and not yet processed.
\<close>

record world =
  w_entities :: "nat \<rightharpoonup> live_entity"
  w_num_entities :: nat
  w_removing :: "nat list"

text \<open>
  The functions of the engine that the SEED calls. A trace reads the world it is made in.
  \<open>h_SpawnSlot\<close> is the entity number \<^verbatim>\<open>SpawnEntityDef\<close> gives to a new entity of a
  class (\<open>None\<close> when it creates none); \<open>h_LODLevel\<close> is \<^verbatim>\<open>m_LODLevel\<close> as
  \<^verbatim>\<open>ThinkAboutLOD\<close> leaves it for a distance; \<open>h_right_to_left\<close> says in which
  order the compiled program evaluates the arguments of a call.
\<close>

record host =
  h_Sqrt :: "real \<Rightarrow> real"
  h_Pow :: "real \<Rightarrow> real \<Rightarrow> real"
  h_PolarToVec3 :: "real \<Rightarrow> real \<Rightarrow> real \<Rightarrow> idVec3"
  h_ToMat3 :: "idAngles \<Rightarrow> idMat3"
  h_ToAngles :: "idMat3 \<Rightarrow> idAngles"
  h_VecMulMat3 :: "idVec3 \<Rightarrow> idMat3 \<Rightarrow> idVec3"
  h_GetMapDataAt :: "nat \<Rightarrow> real \<Rightarrow> real \<Rightarrow> int"
  h_TracePoint :: "world \<Rightarrow> idVec3 \<Rightarrow> idVec3 \<Rightarrow> real \<times> surfTypes_t \<times> string"
  h_TraceBounds :: "world \<Rightarrow> idVec3 \<Rightarrow> idVec3 \<Rightarrow> idBounds \<Rightarrow> real \<times> idVec3 \<times> idMat3"
  h_ContainsPoint :: "idBox \<Rightarrow> idVec3 \<Rightarrow> bool"
  h_IntersectsBox :: "idBox \<Rightarrow> idBox \<Rightarrow> bool"
  h_BoxExpand :: "idBox \<Rightarrow> real \<Rightarrow> idBox"
  h_BoundsExpand :: "idBounds \<Rightarrow> real \<Rightarrow> idBounds"
  h_IntersectsBounds :: "idBounds \<Rightarrow> idBounds \<Rightarrow> bool"
  h_BoundsMulMat3 :: "idBounds \<Rightarrow> idMat3 \<Rightarrow> idBounds"
  h_PackColor :: "idVec3 \<Rightarrow> 32 word"
  h_UnpackColor :: "32 word \<Rightarrow> idVec3"
  h_FindModel :: "string \<Rightarrow> nat option"
  h_LoadClipModel :: "string \<Rightarrow> bool"
  h_GetMaxModelCount :: "nat \<Rightarrow> nat"
  h_GetPVSAreas :: "idVec3 \<Rightarrow> idVec3 \<Rightarrow> idAngles \<Rightarrow> int list"
  h_LODLevel :: "lod_data option \<Rightarrow> real \<Rightarrow> int"
  h_FindEntityDefDict :: "string \<Rightarrow> bool"
  h_SpawnSlot :: "world \<Rightarrow> string \<Rightarrow> nat option"
  h_IsMoveable :: "string \<Rightarrow> bool"
  h_MAX_GENTITIES :: nat
  h_right_to_left :: bool

text \<open>
  What \<^verbatim>\<open>PrepareEntities\<close> and \<^verbatim>\<open>CombineEntities\<close> read from the SEED's own spawnargs
  and render entity: the size and axis of the render bounds, \<^verbatim>\<open>spacing\<close>, the rotation
  range (\<^verbatim>\<open>seed_rotate_min\<close>, \<^verbatim>\<open>seed_rotate_max\<close> with their fallbacks),
  \<^verbatim>\<open>combine_distance\<close>, the position of the player, the gravity normal of the SEED
  and the cvar \<^verbatim>\<open>cv_lod_bias\<close>.
\<close>

record seed_args =
  sa_size :: idVec3
  sa_axis :: idMat3
  sa_spacing :: real
  sa_rotate_min :: idAngles
  sa_rotate_max :: idAngles
  sa_combine_distance :: real
  sa_playerPos :: idVec3
  sa_gravityNormal :: idVec3
  sa_cv_lod_bias :: real

text \<open>The members of \<^verbatim>\<open>Seed\<close> that the modelled functions read or write.\<close>

record seed =
  m_iSeed :: "32 word"
  m_iSeed_2 :: "32 word"
  m_iOrgSeed :: "32 word"
  m_Entities :: "seed_entity list"
  m_Classes :: "seed_class list"
  m_Inhibitors :: "seed_inhibitor list"
  m_Skins :: "string list"
  m_origin :: idVec3
  m_iNumEntities :: int
  m_iNumExisting :: int
  m_iNumVisible :: int
  m_iNumStaticMulties :: int
  m_iNumPVSAreas :: int
  m_bCombine :: bool

subsection \<open>Seed::PrepareEntities: one attempt to place an entity\<close>

text \<open>
  The body of the loop \<^verbatim>\<open>while (tries++ < MAX_TRIES)\<close> works on the local
  \<^verbatim>\<open>SeedEntity\<close>, draws from \<^verbatim>\<open>RandomFloat\<close> (the seed \<open>sd\<close> is threaded through)
  and ends in \<^verbatim>\<open>continue\<close>, in \<^verbatim>\<open>break\<close>, or at the end of the body. Its stages follow,
  in the order of the source.
\<close>

text \<open>
  Where two or three calls of \<^verbatim>\<open>RandomFloat\<close> are arguments of one constructor (lines
  1958, 2049 and 2354 to 2357), C++ leaves open in which order they are made. The engine
  says whether the compiled program makes them from right to left; the result holds the
  values in the order of the arguments.
\<close>

definition draw2 :: "host \<Rightarrow> 32 word \<Rightarrow> (real \<times> real) \<times> 32 word" where
  "draw2 h sd =
     (if h_right_to_left h then
        (let (r2, sd) = RandomFloat sd; (r1, sd) = RandomFloat sd in ((r1, r2), sd))
      else
        (let (r1, sd) = RandomFloat sd; (r2, sd) = RandomFloat sd in ((r1, r2), sd)))"

definition draw3 :: "host \<Rightarrow> 32 word \<Rightarrow> (real \<times> real \<times> real) \<times> 32 word" where
  "draw3 h sd =
     (if h_right_to_left h then
        (let (r3, sd) = RandomFloat sd; (r2, sd) = RandomFloat sd; (r1, sd) = RandomFloat sd
         in ((r1, r2, r3), sd))
      else
        (let (r1, sd) = RandomFloat sd; (r2, sd) = RandomFloat sd; (r3, sd) = RandomFloat sd
         in ((r1, r2, r3), sd)))"

definition BunchEntities :: "seed_entity list \<Rightarrow> nat \<Rightarrow> nat list" where
  "BunchEntities ents i = filter (\<lambda>e. ent_classIdx (ents ! e) = int i) [0..<length ents]"

definition bunchTarget :: "seed_entity list \<Rightarrow> nat \<Rightarrow> real \<Rightarrow> nat" where
  "bunchTarget ents i r = nat (trunc (real (length (BunchEntities ents i)) * r))"

text \<open>Lines 1930 to 1965: the bunching branch. The entity read is \<^verbatim>\<open>m_Entities[ bunchTarget ]\<close>.\<close>

definition bunch_origin ::
  "host \<Rightarrow> seed_class \<Rightarrow> nat \<Rightarrow> seed_entity list \<Rightarrow> idVec3 \<Rightarrow> 32 word \<Rightarrow> idVec3 \<times> 32 word" where
  "bunch_origin h c i ents origin0 sd =
     (let distance = vx (cls_size c) * vx (cls_size c) + vy (cls_size c) * vy (cls_size c);
          distance = h_Sqrt h distance;
          distance = distance + cls_spacing c * 2;
          (r1, sd) = RandomFloat sd;
          target = bunchTarget ents i r1;
          ((r2, r3), sd) = draw2 h sd;
          origin = h_PolarToVec3 h (2 * distance + r2 * distance / 3) 0 (r3 * 360);
          origin = vadd origin (vsub (ent_origin (ents ! target)) origin0)
      in (origin, sd))"

text \<open>
  Lines 1988 to 2034: the loop \<^verbatim>\<open>while (falloff_tries++ < 16)\<close>, by the number of rounds
  left; the state is \<open>(x, y, p)\<close>.
\<close>

fun falloff_sample ::
  "host \<Rightarrow> int \<Rightarrow> real \<Rightarrow> nat \<Rightarrow> real \<times> real \<times> real \<Rightarrow> 32 word \<Rightarrow> (real \<times> real \<times> real) \<times> 32 word" where
  "falloff_sample h falloff factor 0 xyp sd = (xyp, sd)"
| "falloff_sample h falloff factor (Suc n) (x0, y0, p0) sd =
     (let (r1, sd) = RandomFloat sd;
          x = 2 * (r1 - 0.5);
          (r2, sd) = RandomFloat sd;
          y = 2 * (r2 - 0.5);
          d = x * x + y * y
      in if d > 1 then falloff_sample h falloff factor n (x, y, p0) sd
         else if falloff = 1 then ((x, y, 1), sd)
         else
           let p = (if falloff = 4 then d else h_Pow h d factor);
               (r3, sd) = RandomFloat sd
           in if r3 > p then ((x, y, 1), sd)
              else falloff_sample h falloff factor n (x, y, 0) sd)"

text \<open>
  Lines 1925 to 2051: the candidate position, relative to the SEED. \<open>None\<close> is the
  \<^verbatim>\<open>continue\<close> of line 2038. \<^verbatim>\<open>RandomFloat\<close> of line 1925 is only called when an
  entity is placed already.
\<close>

definition candidate_origin ::
  "host \<Rightarrow> seed_args \<Rightarrow> seed_class \<Rightarrow> nat \<Rightarrow> seed_entity list \<Rightarrow> idVec3 \<Rightarrow> 32 word
     \<Rightarrow> idVec3 option \<times> 32 word" where
  "candidate_origin h a c i ents origin0 sd =
     (let (bunch, sd) =
            (if length ents > 0 then (let (r, sd) = RandomFloat sd in (r < cls_bunching c, sd))
             else (False, sd))
      in if bunch then
           (let (origin, sd) = bunch_origin h c i ents origin0 sd in (Some origin, sd))
         else if cls_falloff c > 0 \<and> cls_falloff c < 5 then
           (let factor = cls_func_a c;
                falloff = cls_falloff c;
                factor = (if falloff = 3 then 1 / factor else factor);
                ((x, y, p), sd) = falloff_sample h falloff factor 16 (0, 0, 0) sd
            in if p < 0.000001 then (None, sd)
               else (Some (idVec3 (x * vx (sa_size a) / 2) (y * vy (sa_size a) / 2) 0), sd))
         else
           (let ((r1, r2), sd) = draw2 h sd
            in (Some (idVec3 ((r1 - 0.5) * vx (sa_size a)) ((r2 - 0.5) * vy (sa_size a)) 0), sd)))"

definition ClampFloat :: "real \<Rightarrow> real \<Rightarrow> real \<Rightarrow> real" where
  "ClampFloat lo hi f = (if f < lo then lo else if f > hi then hi else f)"

text \<open>Lines 2054 to 2092: the probability of the falloff \<open>func\<close>; \<open>None\<close> is \<^verbatim>\<open>continue\<close>.\<close>

definition func_probability :: "seed_args \<Rightarrow> seed_class \<Rightarrow> idVec3 \<Rightarrow> real option" where
  "func_probability a c origin =
     (let probability = (1::real) in
      if cls_falloff c = 5 then
        (let x = (vx origin / vx (sa_size a)) + 0.5;
             x = (if cls_func_Xt c = 2 then x * x else x);
             y = (vy origin / vy (sa_size a)) + 0.5;
             y = (if cls_func_Yt c = 2 then y * y else y);
             p = cls_func_s c * (x * cls_func_x c + y * cls_func_y c + cls_func_a c)
         in if cls_func_f c = 0 then
              (if p < cls_func_min c \<or> p > cls_func_max c then None else Some probability)
            else Some (ClampFloat (cls_func_min c) (cls_func_max c) p))
      else Some probability)"

text \<open>
  Lines 2095 to 2121: the image map; \<open>None\<close> is \<^verbatim>\<open>continue\<close>. The source adds
  \<^verbatim>\<open>map_ofs_x\<close> to both coordinates.
\<close>

definition map_probability :: "host \<Rightarrow> seed_args \<Rightarrow> seed_class \<Rightarrow> idVec3 \<Rightarrow> real \<Rightarrow> real option" where
  "map_probability h a c origin probability =
     (if cls_imgmap c \<noteq> 0 then
        (let x = cls_map_scale_x c * (vx origin / vx (sa_size a)) + cls_map_ofs_x c + 0.5;
             y = cls_map_scale_y c * (vy origin / vy (sa_size a)) + cls_map_ofs_x c + 0.5;
             x = fmod (fmod x 1 + 1) 1;
             y = fmod (fmod y 1 + 1) 1;
             v = h_GetMapDataAt h (cls_imgmap c) (1 - x) y;
             v = (if cls_map_invert c then 255 - v else v);
             probability = probability * (real_of_int v / 256)
         in if probability < 0.000001 then None else Some probability)
      else Some probability)"

text \<open>The switch of lines 2158 to 2190.\<close>

fun surface_descr :: "surfTypes_t \<Rightarrow> string \<Rightarrow> string" where
  "surface_descr SURFTYPE_METAL d = ''metal''"
| "surface_descr SURFTYPE_STONE d = ''stone''"
| "surface_descr SURFTYPE_FLESH d = ''flesh''"
| "surface_descr SURFTYPE_WOOD d = ''wood''"
| "surface_descr SURFTYPE_CARDBOARD d = ''cardboard''"
| "surface_descr SURFTYPE_LIQUID d = ''liquid''"
| "surface_descr SURFTYPE_GLASS d = ''glass''"
| "surface_descr SURFTYPE_PLASTIC d = ''plastic''"
| "surface_descr SURFTYPE_15 d = d"
| "surface_descr SURFTYPE_OTHER d = []"

text \<open>
  Lines 2134 to 2226: the material under the candidate. \<^verbatim>\<open>name.Find( descr ) == 0\<close>
  holds when \<open>descr\<close> is a prefix of the name.
\<close>

definition material_probability ::
  "host \<Rightarrow> world \<Rightarrow> seed_args \<Rightarrow> seed_class \<Rightarrow> idVec3 \<Rightarrow> idVec3 \<Rightarrow> real \<Rightarrow> real" where
  "material_probability h w a c origin0 origin probability =
     (if length (cls_materials c) > 0 then
        (let traceEnd = idVec3 (vx origin) (vy origin) (vz origin0 - vz (sa_size a));
             (fraction, type, description) = h_TracePoint h w origin traceEnd
         in if fraction < 1 then
              (let descr = surface_descr type description;
                   p = (case find (\<lambda>m. prefix descr (mat_name m)) (cls_materials c) of
                          None \<Rightarrow> cls_defaultProb c
                        | Some m \<Rightarrow> mat_probability m)
               in probability * p)
            else probability)
      else probability)"

text \<open>Lines 2237 to 2293: flooring. The result is \<^verbatim>\<open>SeedEntity\<close> with its new origin and angles.\<close>

definition floor_entity ::
  "host \<Rightarrow> world \<Rightarrow> seed_args \<Rightarrow> seed_class \<Rightarrow> idVec3 \<Rightarrow> seed_entity \<Rightarrow> seed_entity" where
  "floor_entity h w a c origin0 SeedEntity =
     (if cls_floor c then
        (let origin = ent_origin SeedEntity;
             traceEnd = idVec3 (vx origin) (vy origin) (vz origin0 - vz (sa_size a));
             b_1 = vneg (vdiv (cls_size c) 2);
             b_2 = vdiv (cls_size c) 2;
             b_1 = idVec3 (vx b_1) (vy b_1) 0;
             b_2 = idVec3 (vx b_2) (vy b_2) (vz (cls_size c));
             class_bounds = idBounds b_1 b_2;
             (fraction, endpos, endAxis) = h_TraceBounds h w origin traceEnd class_bounds
         in if fraction \<noteq> 1 then
              SeedEntity\<lparr>ent_origin := endpos, ent_angles := h_ToAngles h endAxis\<rparr>
            else SeedEntity)
      else
        SeedEntity\<lparr>ent_origin :=
          idVec3 (vx (ent_origin SeedEntity)) (vy (ent_origin SeedEntity)) (vz (cls_origin c))\<rparr>)"

text \<open>Lines 2296 to 2329: the z band; \<open>None\<close> is \<^verbatim>\<open>continue\<close>.\<close>

definition z_band :: "seed_class \<Rightarrow> real \<Rightarrow> real \<Rightarrow> real option" where
  "z_band c z probability =
     (if \<not> cls_z_invert c then
        (if z < cls_z_min c \<or> z > cls_z_max c then None else Some probability)
      else if z > cls_z_min c \<and> z < cls_z_max c then None
      else
        (let probability =
               (if cls_z_fadein c > 0 \<and> z < cls_z_min c + cls_z_fadein c
                then probability * (((cls_z_min c + cls_z_fadein c) - z) / cls_z_fadein c)
                else probability);
             probability =
               (if cls_z_fadeout c > 0 \<and> z > cls_z_max c - cls_z_fadeout c
                then probability * ((cls_z_max c - z) / cls_z_fadeout c)
                else probability)
         in Some probability))"

text \<open>Lines 2339 to 2357: the sink, the offset of the class and the random rotation.\<close>

definition sink_offset_rotate ::
  "host \<Rightarrow> seed_args \<Rightarrow> seed_class \<Rightarrow> seed_entity \<Rightarrow> 32 word \<Rightarrow> seed_entity \<times> 32 word" where
  "sink_offset_rotate h a c SeedEntity sd =
     (let origin = ent_origin SeedEntity;
          (origin, sd) =
            (if cls_sink_min c \<noteq> 0 \<or> cls_sink_max c \<noteq> 0 then
               (let (r, sd) = RandomFloat sd;
                    sink = cls_sink_min c + r * (cls_sink_max c - cls_sink_min c)
                in (idVec3 (vx origin) (vy origin) (vz origin - sink), sd))
             else (origin, sd));
          origin = vadd origin (cls_offset c);
          lo = sa_rotate_min a;
          hi = sa_rotate_max a;
          ((r1, r2, r3), sd) = draw3 h sd;
          angles = idAngles (pitch lo + r1 * (pitch hi - pitch lo))
                            (yaw lo + r2 * (yaw hi - yaw lo))
                            (roll lo + r3 * (roll hi - roll lo))
      in (SeedEntity\<lparr>ent_origin := origin, ent_angles := angles\<rparr>, sd))"

text \<open>
  Lines 2381 to 2463: the loop over the inhibitors, with the value of \<^verbatim>\<open>inhibited\<close> so
  far. After the scan of the class names \<^verbatim>\<open>inhibited\<close> is \<^verbatim>\<open>inhibit_only\<close> when the
  class is listed and its negation when it is not. The \<^verbatim>\<open>break\<close> of line 2458 leaves
  the loop.
\<close>

fun inhibit_loop ::
  "host \<Rightarrow> seed_inhibitor list \<Rightarrow> string \<Rightarrow> idBox \<Rightarrow> idVec3 \<Rightarrow> bool \<Rightarrow> 32 word \<Rightarrow> bool \<times> 32 word" where
  "inhibit_loop h [] classname testBox origin inhibited sd = (inhibited, sd)"
| "inhibit_loop h (inh # rest) classname testBox origin inhibited sd =
     (if h_IntersectsBox h testBox (inh_box inh) then
        (let inhibited = True;
             inhibited =
               (if length (inh_classnames inh) > 0 then
                  (if classname \<in> set (inh_classnames inh) then inh_inhibit_only inh
                   else \<not> inh_inhibit_only inh)
                else inhibited)
         in if inhibited \<and> inh_falloff inh > 0 then
              (let factor = inh_factor inh;
                   falloff = inh_falloff inh;
                   factor = (if falloff = 3 then 1 / factor else factor);
                   x = 2 * (vx origin - vx (inh_origin inh)) / vx (inh_size inh);
                   y = 2 * (vy origin - vy (inh_origin inh)) / vy (inh_size inh);
                   d = x * x + y * y
               in if d < 1 then
                    (let p = (if falloff = 1 then 0 else if falloff = 4 then d else h_Pow h d factor);
                         (r, sd) = RandomFloat sd
                     in if r > p then (True, sd)
                        else inhibit_loop h rest classname testBox origin False sd)
                  else inhibit_loop h rest classname testBox origin False sd)
            else inhibit_loop h rest classname testBox origin inhibited sd)
      else inhibit_loop h rest classname testBox origin inhibited sd)"

text \<open>Lines 2472 to 2476: the spacing that the collision check uses.\<close>

definition use_spacing :: "seed_args \<Rightarrow> seed_class \<Rightarrow> real" where
  "use_spacing a c =
     (let use_spacing = sa_spacing a
      in if cls_spacing c \<noteq> 0 then cls_spacing c else use_spacing)"

text \<open>
  Lines 2490 to 2508: the loop over the entities placed so far, on the cached bounds and
  boxes of each; \<open>True\<close> is \<^verbatim>\<open>collides\<close>.
\<close>

fun collides_loop :: "host \<Rightarrow> idBounds \<Rightarrow> idBox \<Rightarrow> (idBounds \<times> idBox) list \<Rightarrow> bool" where
  "collides_loop h testBounds testBox [] = False"
| "collides_loop h testBounds testBox ((otherBounds, otherBox) # rest) =
     (if h_IntersectsBounds h otherBounds testBounds then
        (if h_IntersectsBox h otherBox testBox then True
         else collides_loop h testBounds testBox rest)
      else collides_loop h testBounds testBox rest)"

text \<open>
  The bounds and the box of an entity of a class, as lines 2376, 2486, 2564 and 2566
  build them: \<^verbatim>\<open>(idBounds( size ) + origin) * angles.ToMat3()\<close> and
  \<^verbatim>\<open>idBox( origin, size, angles.ToMat3() )\<close>.
\<close>

definition entity_bounds :: "host \<Rightarrow> seed_class \<Rightarrow> seed_entity \<Rightarrow> idBounds" where
  "entity_bounds h c SeedEntity =
     h_BoundsMulMat3 h (bounds_translate (idBounds_point (cls_size c)) (ent_origin SeedEntity))
       (h_ToMat3 h (ent_angles SeedEntity))"

definition entity_box :: "host \<Rightarrow> seed_class \<Rightarrow> seed_entity \<Rightarrow> idBox" where
  "entity_box h c SeedEntity =
     idBox (ent_origin SeedEntity) (cls_size c) (h_ToMat3 h (ent_angles SeedEntity))"

text \<open>Lines 2471 to 2513: \<open>True\<close> when the candidate is rejected for a collision.\<close>

definition collision ::
  "host \<Rightarrow> seed_args \<Rightarrow> seed_class \<Rightarrow> seed_entity list \<Rightarrow> idBounds list \<Rightarrow> idBox list
     \<Rightarrow> seed_entity \<Rightarrow> bool" where
  "collision h a c ents SeedEntityBounds SeedEntityBoxes SeedEntity =
     (let spacing = use_spacing a c
      in if cls_nocollide c > 0 \<or> spacing > 0 then
           collides_loop h (h_BoundsExpand h (entity_bounds h c SeedEntity) spacing)
             (h_BoxExpand h (entity_box h c SeedEntity) spacing)
             (take (length ents) (zip SeedEntityBounds SeedEntityBoxes))
         else False)"

text \<open>
  The whole body of the loop (lines 1921 to 2524): \<open>True\<close> when it ends in the
  \<^verbatim>\<open>break\<close> of line 2519, \<open>False\<close> when it ends in a \<^verbatim>\<open>continue\<close> or at its end (the
  candidate is outside the box of the SEED).
\<close>

definition place_attempt ::
  "host \<Rightarrow> world \<Rightarrow> seed_args \<Rightarrow> seed_inhibitor list \<Rightarrow> idVec3 \<Rightarrow> seed_class \<Rightarrow> nat
     \<Rightarrow> seed_entity list \<Rightarrow> idBounds list \<Rightarrow> idBox list \<Rightarrow> seed_entity \<Rightarrow> 32 word
     \<Rightarrow> bool \<times> seed_entity \<times> 32 word" where
  "place_attempt h w a inhs origin0 c i ents bnds boxes SeedEntity sd =
     (case candidate_origin h a c i ents origin0 sd of
        (None, sd) \<Rightarrow> (False, SeedEntity, sd)
      | (Some origin, sd) \<Rightarrow>
          (let SeedEntity = SeedEntity\<lparr>ent_origin := origin\<rparr> in
           case func_probability a c origin of
             None \<Rightarrow> (False, SeedEntity, sd)
           | Some probability \<Rightarrow>
               (case map_probability h a c origin probability of
                  None \<Rightarrow> (False, SeedEntity, sd)
                | Some probability \<Rightarrow>
                    (let origin = h_VecMulMat3 h origin (sa_axis a);
                         origin = vadd origin origin0;
                         SeedEntity = SeedEntity\<lparr>ent_origin := origin\<rparr>;
                         probability = material_probability h w a c origin0 origin probability;
                         (r, sd) = RandomFloat sd
                     in if r > probability then (False, SeedEntity, sd)
                        else
                          (let SeedEntity = floor_entity h w a c origin0 SeedEntity in
                           case z_band c (vz (ent_origin SeedEntity)) probability of
                             None \<Rightarrow> (False, SeedEntity, sd)
                           | Some probability \<Rightarrow>
                               if r > probability then (False, SeedEntity, sd)
                               else
                                 (let (SeedEntity, sd) = sink_offset_rotate h a c SeedEntity sd in
                                  if h_ContainsPoint h (idBox origin0 (sa_size a) (sa_axis a))
                                       (ent_origin SeedEntity)
                                  then
                                    (let (inhibited, sd) =
                                           (if \<not> cls_noinhibit c then
                                              inhibit_loop h inhs (cls_classname c)
                                                (entity_box h c SeedEntity) (ent_origin SeedEntity)
                                                False sd
                                            else (False, sd))
                                     in if inhibited then (False, SeedEntity, sd)
                                        else if collision h a c ents bnds boxes SeedEntity
                                          then (False, SeedEntity, sd)
                                        else (True, SeedEntity, sd))
                                  else (False, SeedEntity, sd)))))))"

subsection \<open>Seed::PrepareEntities: the loops\<close>

text \<open>
  The loop \<^verbatim>\<open>while (tries++ < MAX_TRIES)\<close> of line 1919, from a value of \<^verbatim>\<open>tries\<close>.
  The test compares the old value and increments, also when it fails. The result is the
  value of \<^verbatim>\<open>tries\<close> after the loop, the outcome of each attempt made (in order, \<open>True\<close>
  for the \<^verbatim>\<open>break\<close>), \<^verbatim>\<open>SeedEntity\<close> and the seed.
\<close>

function place_tries ::
  "host \<Rightarrow> world \<Rightarrow> seed_args \<Rightarrow> seed_inhibitor list \<Rightarrow> idVec3 \<Rightarrow> seed_class \<Rightarrow> nat
     \<Rightarrow> seed_entity list \<Rightarrow> idBounds list \<Rightarrow> idBox list \<Rightarrow> int \<Rightarrow> seed_entity \<Rightarrow> 32 word
     \<Rightarrow> int \<times> bool list \<times> seed_entity \<times> 32 word" where
  "place_tries h w a inhs origin0 c i ents bnds boxes tries SeedEntity sd =
     (if tries < MAX_TRIES then
        (case place_attempt h w a inhs origin0 c i ents bnds boxes SeedEntity sd of
           (accepted, SeedEntity, sd) \<Rightarrow>
             if accepted then (tries + 1, [True], SeedEntity, sd)
             else
               (case place_tries h w a inhs origin0 c i ents bnds boxes (tries + 1) SeedEntity sd of
                  (tries', outcomes, SeedEntity, sd) \<Rightarrow> (tries', False # outcomes, SeedEntity, sd)))
      else (tries + 1, [], SeedEntity, sd))"
  by pat_completeness auto
termination
  by (relation "measure (\<lambda>(h, w, a, inhs, origin0, c, i, ents, bnds, boxes, tries, SeedEntity, sd).
        nat (MAX_TRIES - tries))") auto

declare place_tries.simps [simp del]

text \<open>
  Lines 2529 to 2561: colour, skin, flags and scale of an entity that found its place.
  The index into \<^verbatim>\<open>skins\<close> is the float converted to \<^verbatim>\<open>int\<close>.
\<close>

definition finish_entity ::
  "host \<Rightarrow> seed_class \<Rightarrow> nat \<Rightarrow> seed_entity \<Rightarrow> 32 word \<Rightarrow> seed_entity \<times> 32 word" where
  "finish_entity h c i SeedEntity sd =
     (let color = vsub (cls_color_max c) (cls_color_min c);
          (r1, sd) = RandomFloat sd;
          (r2, sd) = RandomFloat sd;
          (r3, sd) = RandomFloat sd;
          color = idVec3 (vx color * r1 + vx (cls_color_min c))
                         (vy color * r2 + vy (cls_color_min c))
                         (vz color * r3 + vz (cls_color_min c));
          (r4, sd) = RandomFloat sd;
          skinIdx = cls_skins c ! nat (trunc (r4 * real (length (cls_skins c))));
          (scale, sd) =
            (if vx (cls_scale_min c) = 0 then
               (let (r5, sd) = RandomFloat sd;
                    factor = r5 * (vz (cls_scale_max c) - vz (cls_scale_min c)) + vz (cls_scale_min c)
                in (idVec3 factor factor factor, sd))
             else
               (let scale = vsub (cls_scale_max c) (cls_scale_min c);
                    (r5, sd) = RandomFloat sd;
                    (r6, sd) = RandomFloat sd;
                    (r7, sd) = RandomFloat sd
                in (idVec3 (vx scale * r5 + vx (cls_scale_min c))
                           (vy scale * r6 + vy (cls_scale_min c))
                           (vz scale * r7 + vz (cls_scale_min c)), sd)))
      in (SeedEntity\<lparr>ent_color := h_PackColor h color, ent_skinIdx := skinIdx,
                      ent_flags := SEED_ENTITY_HIDDEN, ent_entity := 0, ent_classIdx := int i,
                      ent_scale := scale\<rparr>, sd))"

text \<open>
  The state of the placement: \<^verbatim>\<open>m_Entities\<close>, \<^verbatim>\<open>SeedEntityBounds\<close>,
  \<^verbatim>\<open>SeedEntityBoxes\<close>, \<^verbatim>\<open>SeedEntity\<close> and \<^verbatim>\<open>m_iSeed\<close>.
\<close>

type_synonym place_state =
  "seed_entity list \<times> idBounds list \<times> idBox list \<times> seed_entity \<times> 32 word"

text \<open>The state of the placement without the local \<^verbatim>\<open>SeedEntity\<close>.\<close>

definition placed :: "place_state \<Rightarrow> seed_entity list \<times> idBounds list \<times> idBox list \<times> 32 word" where
  "placed st = (case st of (ents, bnds, boxes, SeedEntity, sd) \<Rightarrow> (ents, bnds, boxes, sd))"

text \<open>
  One round of the loop over \<open>j\<close> (lines 1918 to 2573): the new state, and whether the
  round ended in the \<^verbatim>\<open>break\<close> of line 2572.
\<close>

definition place_entity ::
  "host \<Rightarrow> world \<Rightarrow> seed_args \<Rightarrow> seed_inhibitor list \<Rightarrow> idVec3 \<Rightarrow> int \<Rightarrow> seed_class \<Rightarrow> nat
     \<Rightarrow> place_state \<Rightarrow> place_state \<times> bool" where
  "place_entity h w a inhs origin0 numEntities c i st =
     (case st of (ents, bnds, boxes, SeedEntity, sd) \<Rightarrow>
        (case place_tries h w a inhs origin0 c i ents bnds boxes 0 SeedEntity sd of
           (tries, outcomes, SeedEntity, sd) \<Rightarrow>
             if tries \<ge> MAX_TRIES then ((ents, bnds, boxes, SeedEntity, sd), False)
             else
               (let (SeedEntity, sd) = finish_entity h c i SeedEntity sd;
                    bnds = bnds @ [entity_bounds h c SeedEntity];
                    boxes = boxes @ [entity_box h c SeedEntity];
                    ents = ents @ [SeedEntity]
                in ((ents, bnds, boxes, SeedEntity, sd), int (length ents) \<ge> numEntities))))"

text \<open>The loop \<^verbatim>\<open>for (int j = 0; j < iEntities; j++)\<close>, by the number of rounds left.\<close>

fun place_entities ::
  "host \<Rightarrow> world \<Rightarrow> seed_args \<Rightarrow> seed_inhibitor list \<Rightarrow> idVec3 \<Rightarrow> int \<Rightarrow> seed_class \<Rightarrow> nat
     \<Rightarrow> nat \<Rightarrow> place_state \<Rightarrow> place_state" where
  "place_entities h w a inhs origin0 numEntities c i 0 st = st"
| "place_entities h w a inhs origin0 numEntities c i (Suc n) st =
     (case place_entity h w a inhs origin0 numEntities c i st of
        (st, stop) \<Rightarrow>
          if stop then st else place_entities h w a inhs origin0 numEntities c i n st)"

text \<open>Lines 1900 to 1908: the number of entities to create for a class.\<close>

definition iEntities :: "seed_class \<Rightarrow> int" where
  "iEntities c =
     (let n = cls_maxEntities c
      in if n \<le> 0 then (let n = cls_numEntities c in if n < 0 then 0 else n) else n)"

text \<open>
  The loop over the classes (lines 1879 to 2575), along the shuffled \<^verbatim>\<open>ClassIndex\<close>.
\<close>

fun place_classes ::
  "host \<Rightarrow> world \<Rightarrow> seed_args \<Rightarrow> seed_inhibitor list \<Rightarrow> idVec3 \<Rightarrow> int \<Rightarrow> seed_class list
     \<Rightarrow> nat list \<Rightarrow> place_state \<Rightarrow> place_state" where
  "place_classes h w a inhs origin0 numEntities classes [] st = st"
| "place_classes h w a inhs origin0 numEntities classes (i # rest) st =
     (case st of (ents, bnds, boxes, SeedEntity, sd) \<Rightarrow>
        if int (length ents) \<ge> numEntities then st
        else if cls_watch (classes ! i) then
          place_classes h w a inhs origin0 numEntities classes rest st
        else
          place_classes h w a inhs origin0 numEntities classes rest
            (place_entities h w a inhs origin0 numEntities (classes ! i) i
               (nat (iEntities (classes ! i)))
               (ents, bnds, boxes, SeedEntity, cls_seed (classes ! i))))"

text \<open>Lines 1831 to 1862: the pseudo classes are dropped and every class gets its seed.\<close>

fun assign_seeds :: "seed_class list \<Rightarrow> 32 word \<Rightarrow> seed_class list \<times> 32 word" where
  "assign_seeds [] sd2 = ([], sd2)"
| "assign_seeds (c # cs) sd2 =
     (let (v, sd2) = RandomSeed sd2;
          (cs', sd2) = assign_seeds cs sd2
      in (c\<lparr>cls_seed := v\<rparr> # cs', sd2))"

text \<open>Lines 1868 to 1872: the shuffle of \<^verbatim>\<open>ClassIndex\<close>, one round and the loop.\<close>

definition shuffle_step :: "nat \<Rightarrow> nat \<Rightarrow> nat list \<times> 32 word \<Rightarrow> nat list \<times> 32 word" where
  "shuffle_step s i st =
     (case st of (ClassIndex, sd) \<Rightarrow>
        (let (r, sd) = RandomFloat sd;
             second = nat (trunc (r * real s));
             temp = ClassIndex ! i;
             ClassIndex = ClassIndex[i := ClassIndex ! second];
             ClassIndex = ClassIndex[second := temp]
         in (ClassIndex, sd)))"

definition shuffle :: "nat \<Rightarrow> 32 word \<Rightarrow> nat list \<times> 32 word" where
  "shuffle s sd = fold (shuffle_step s) [0..<s] ([0..<s], sd)"

text \<open>\<^verbatim>\<open>Seed::AddSkin\<close>: the index of the first equal name, or the name is appended.\<close>

fun first_index :: "'a list \<Rightarrow> 'a \<Rightarrow> nat" where
  "first_index [] x = 0"
| "first_index (y # ys) x = (if y = x then 0 else Suc (first_index ys x))"

definition AddSkin :: "string list \<Rightarrow> string \<Rightarrow> string list \<times> nat" where
  "AddSkin skins skin =
     (let i = first_index skins skin
      in if i < length skins then (skins, i) else (skins @ [skin], length skins))"

text \<open>
  \<^verbatim>\<open>GetPhysics()->GetOrigin()\<close> and \<^verbatim>\<open>GetPhysics()->GetAxis()\<close> of a live object: its
  own, or those of the \<^verbatim>\<open>idPhysics_StaticMulti\<close> of the class that \<open>le_multi\<close> names.
\<close>

definition live_origin :: "seed_class list \<Rightarrow> live_entity \<Rightarrow> idVec3" where
  "live_origin classes le =
     (case le_multi le of
        None \<Rightarrow> le_origin le
      | Some k \<Rightarrow> po_origin (the (cls_physicsObj (classes ! k))))"

definition live_axis :: "seed_class list \<Rightarrow> live_entity \<Rightarrow> idMat3" where
  "live_axis classes le =
     (case le_multi le of
        None \<Rightarrow> le_axis le
      | Some k \<Rightarrow> po_axis (the (cls_physicsObj (classes ! k))))"

text \<open>
  Lines 2586 to 2615: the entities of the game that a watching class takes over. The
  state is \<^verbatim>\<open>m_Entities\<close>, \<^verbatim>\<open>m_Skins\<close> and \<^verbatim>\<open>SeedEntity\<close>, whose colour and scale are
  not assigned here.
\<close>

definition watch_entity ::
  "host \<Rightarrow> world \<Rightarrow> idBox \<Rightarrow> seed_class list \<Rightarrow> nat \<Rightarrow> nat
     \<Rightarrow> seed_entity list \<times> string list \<times> seed_entity
     \<Rightarrow> seed_entity list \<times> string list \<times> seed_entity" where
  "watch_entity h w box classes i j st =
     (case st of (ents, skins, SeedEntity) \<Rightarrow>
        (case w_entities w j of
           None \<Rightarrow> st
         | Some ent \<Rightarrow>
             (let origin = live_origin classes ent
              in if le_defName ent = cls_classname (classes ! i) \<and> h_ContainsPoint h box origin
                 then
                   (let (skins, skinIdx) = AddSkin skins (le_skin ent);
                        SeedEntity = SeedEntity\<lparr>ent_origin := origin,
                          ent_angles := h_ToAngles h (live_axis classes ent),
                          ent_skinIdx := skinIdx,
                          ent_flags := SEED_ENTITY_EXISTS + SEED_ENTITY_SPAWNED,
                          ent_entity := j, ent_classIdx := int i\<rparr>
                    in (ents @ [SeedEntity], skins, SeedEntity))
                 else st)))"

definition watch_class ::
  "host \<Rightarrow> world \<Rightarrow> idBox \<Rightarrow> seed_class list \<Rightarrow> nat
     \<Rightarrow> seed_entity list \<times> string list \<times> seed_entity
     \<Rightarrow> seed_entity list \<times> string list \<times> seed_entity" where
  "watch_class h w box classes i st =
     (if \<not> cls_watch (classes ! i) then st
      else fold (watch_entity h w box classes i) [0..<w_num_entities w] st)"

text \<open>
  \<^verbatim>\<open>Seed::PrepareEntities\<close> up to the call of \<^verbatim>\<open>CombineEntities\<close> (lines 1777 to
  2619). \<open>uninit\<close> is the content of the local \<^verbatim>\<open>SeedEntity\<close> at its declaration, which
  has no initializer.
\<close>

definition PlaceEntities :: "host \<Rightarrow> world \<Rightarrow> seed_args \<Rightarrow> seed_entity \<Rightarrow> seed \<Rightarrow> seed" where
  "PlaceEntities h w a uninit s =
     (let box = idBox (m_origin s) (sa_size a) (sa_axis a);
          newClasses = filter (\<lambda>c. \<not> cls_pseudo c) (m_Classes s);
          (classes, sd2) = assign_seeds newClasses (m_iSeed_2 s);
          (sd, sd2) = RandomSeed sd2;
          (ClassIndex, sd) = shuffle (length classes) sd;
          (ents, bnds, boxes, SeedEntity, sd) =
            place_classes h w a (m_Inhibitors s) (m_origin s) (m_iNumEntities s) classes ClassIndex
              ([], [], [], uninit, sd);
          (ents, skins, SeedEntity) =
            fold (watch_class h w box classes) [0..<length classes] (ents, m_Skins s, SeedEntity)
      in s\<lparr>m_iSeed := sd, m_iSeed_2 := sd2, m_Entities := ents, m_Classes := classes,
            m_Skins := skins, m_iNumExisting := 0, m_iNumVisible := 0\<rparr>)"

subsection \<open>Seed::CombineEntities\<close>

text \<open>\<^verbatim>\<open>seed_sort_ofs_t\<close>: an offset and the index of the entity it stands for.\<close>

record seed_sort_ofs =
  so_ofs :: model_ofs
  so_entity :: nat

text \<open>\<^verbatim>\<open>Seed::LODDistance\<close> (lines 2639 to 2651).\<close>

definition LODDistance :: "seed_args \<Rightarrow> lod_data option \<Rightarrow> idVec3 \<Rightarrow> real" where
  "LODDistance a m_LOD delta =
     (let delta =
            (case m_LOD of
               None \<Rightarrow> delta
             | Some l \<Rightarrow>
                 if lod_bDistCheckXYOnly l then
                   (let vGravNorm = sa_gravityNormal a
                    in vsub delta (vscale (vdot vGravNorm delta) vGravNorm))
                 else delta);
          bias = sa_cv_lod_bias a
      in LengthSqr delta / (bias * bias))"

text \<open>
  Lines 2743 to 2759: the PVS area of every entity. The array \<^verbatim>\<open>iPVSAreas\<close> has no
  initializer; its first cell is threaded through (\<open>area0\<close>), for the case that
  \<^verbatim>\<open>GetPVSAreas\<close> writes nothing.
\<close>

definition pvs_step ::
  "host \<Rightarrow> seed_class list \<Rightarrow> seed_entity \<Rightarrow> int list \<times> int \<Rightarrow> int list \<times> int" where
  "pvs_step h classes e st =
     (case st of (pvs, area0) \<Rightarrow>
        (let size = vdiv (cls_size (classes ! nat (ent_classIdx e))) 2;
             areas = h_GetPVSAreas h size (ent_origin e) (ent_angles e);
             area0 = (case areas of [] \<Rightarrow> area0 | x # xs \<Rightarrow> x)
         in if length areas > 1 then (pvs @ [-1], area0) else (pvs @ [area0], area0)))"

text \<open>
  Lines 2834 to 2916: one round of the loop over \<open>j\<close>. The state is \<^verbatim>\<open>m_Entities\<close>,
  \<^verbatim>\<open>sortedOffsets\<close>, \<^verbatim>\<open>merged\<close>, \<^verbatim>\<open>mergedCount\<close> and \<^verbatim>\<open>PseudoClass\<close>.
\<close>

definition combine_step ::
  "host \<Rightarrow> seed_args \<Rightarrow> bool \<Rightarrow> int list \<Rightarrow> real \<Rightarrow> seed_class \<Rightarrow> nat \<Rightarrow> nat
     \<Rightarrow> seed_entity list \<times> seed_sort_ofs list \<times> nat \<times> nat \<times> seed_class
     \<Rightarrow> seed_entity list \<times> seed_sort_ofs list \<times> nat \<times> nat \<times> seed_class" where
  "combine_step h a multiPVS pvs max_combine_distance entityClass i j st =
     (case st of (ents, sortedOffsets, merged, mergedCount, PseudoClass) \<Rightarrow>
        if ent_classIdx (ents ! j) = -1 then st
        else if ent_classIdx (ents ! j) \<noteq> ent_classIdx (ents ! i) then st
        else if ent_skinIdx (ents ! j) \<noteq> ent_skinIdx (ents ! i) then st
        else if multiPVS \<and> pvs ! j \<noteq> pvs ! i then st
        else
          (let dist = vsub (ent_origin (ents ! j)) (ent_origin (ents ! i));
               distSq = LengthSqr dist
           in if distSq > max_combine_distance then st
              else
                (let m_LODLevel =
                       h_LODLevel h (cls_m_LOD entityClass)
                         (LODDistance a (cls_m_LOD entityClass)
                            (vsub (ent_origin (ents ! i)) (sa_playerPos a)));
                     ofs = \<lparr> ofs_offset = dist, ofs_angles = ent_angles (ents ! j),
                             ofs_lod = m_LODLevel + 1, ofs_color = ent_color (ents ! j),
                             ofs_scale = ent_scale (ents ! j), ofs_flags = 0 \<rparr>;
                     sortedOffsets = sortedOffsets @ [\<lparr> so_ofs = ofs, so_entity = j \<rparr>];
                     PseudoClass =
                       (if merged = 0 then
                          PseudoClass\<lparr> cls_pseudo := True, cls_m_LOD := cls_m_LOD entityClass,
                            cls_modelname := cls_modelname entityClass,
                            cls_spawnDist := cls_spawnDist entityClass,
                            cls_cullDist := cls_cullDist entityClass,
                            cls_size := cls_size entityClass, cls_solid := cls_solid entityClass,
                            cls_clip := cls_clip entityClass, cls_imgmap := 0, cls_score := 0,
                            cls_offset := cls_offset entityClass, cls_numEntities := 0,
                            cls_maxEntities := 0, cls_classname := FUNC_DUMMY,
                            cls_hModel := cls_hModel entityClass,
                            cls_physicsObj :=
                              Some \<lparr> po_origin = vec3_origin, po_axis = mat3_identity \<rparr> \<rparr>
                        else PseudoClass);
                     ents = ents[j := (ents ! j)\<lparr>ent_classIdx := - ent_classIdx (ents ! j)\<rparr>]
                 in (ents, sortedOffsets, merged + 1, mergedCount + 1, PseudoClass))))"

text \<open>
  Lines 2922 to 2951: the name of the last LOD model that exists, for the clip model.
\<close>

definition lowest_LOD_model :: "host \<Rightarrow> seed_class \<Rightarrow> string" where
  "lowest_LOD_model h entityClass =
     (case cls_m_LOD entityClass of
        None \<Rightarrow> cls_modelname entityClass
      | Some tmlod \<Rightarrow>
          fold (\<lambda>mName lowest.
                  if mName \<noteq> [] then
                    (case h_FindModel h mName of None \<Rightarrow> lowest | Some tModel \<Rightarrow> mName)
                  else lowest)
               (lod_ModelLOD tmlod) (cls_modelname entityClass))"

text \<open>
  Lines 2955 to 2970: when more entities are merged than fit, the offsets are sorted by
  the squared length of their offset, the entities behind the first \<^verbatim>\<open>maxModelCount\<close>
  get their class index negated again, and the list is cut. \<^verbatim>\<open>idList::Sort\<close> is
  modelled by the stable \<^const>\<open>sort_key\<close>; the order the C library gives to offsets
  of equal length is not specified.
\<close>

definition restore_classIdx :: "seed_sort_ofs \<Rightarrow> seed_entity list \<Rightarrow> seed_entity list" where
  "restore_classIdx so ents =
     ents[so_entity so := (ents ! so_entity so)\<lparr>ent_classIdx := - ent_classIdx (ents ! so_entity so)\<rparr>]"

definition select_nearest ::
  "nat \<Rightarrow> nat \<Rightarrow> seed_entity list \<times> seed_sort_ofs list \<Rightarrow> seed_entity list \<times> seed_sort_ofs list" where
  "select_nearest merged maxModelCount st =
     (case st of (ents, sortedOffsets) \<Rightarrow>
        if merged > maxModelCount then
          (let sortedOffsets = sort_key (\<lambda>so. LengthSqr (ofs_offset (so_ofs so))) sortedOffsets;
               ents = fold restore_classIdx (drop maxModelCount sortedOffsets) ents
           in (ents, take maxModelCount sortedOffsets))
        else st)"

definition mark_combined :: "seed_sort_ofs \<Rightarrow> seed_entity list \<Rightarrow> seed_entity list" where
  "mark_combined so ents = ents[so_entity so := (ents ! so_entity so)\<lparr>ent_classIdx := -1\<rparr>]"

text \<open>
  Lines 2770 to 3039: one round of the loop over \<open>i\<close>. The state is \<^verbatim>\<open>m_Entities\<close>,
  \<^verbatim>\<open>m_Classes\<close>, \<^verbatim>\<open>mergedCount\<close> and the local \<^verbatim>\<open>PseudoClass\<close>. The clip models
  that \<^verbatim>\<open>SetClipModelForMulti\<close> adds are not modelled, only whether the first one
  loaded, after which the physics object gets the origin of the entity.
\<close>

definition combine_entity ::
  "host \<Rightarrow> seed_args \<Rightarrow> bool \<Rightarrow> int list \<Rightarrow> real \<Rightarrow> nat \<Rightarrow> nat
     \<Rightarrow> seed_entity list \<times> seed_class list \<times> nat \<times> seed_class
     \<Rightarrow> seed_entity list \<times> seed_class list \<times> nat \<times> seed_class" where
  "combine_entity h a multiPVS pvs max_combine_distance n i st =
     (case st of (ents, classes, mergedCount, PseudoClass) \<Rightarrow>
        if ent_classIdx (ents ! i) < 0 then st
        else
          (let entityClass = classes ! nat (ent_classIdx (ents ! i))
           in if cls_nocombine entityClass then st
              else
                (case (case cls_hModel entityClass of
                         None \<Rightarrow> h_FindModel h (cls_modelname entityClass)
                       | Some m \<Rightarrow> Some m) of
                   None \<Rightarrow> st
                 | Some tempModel \<Rightarrow>
                     (let m_LODLevel =
                            h_LODLevel h (cls_m_LOD entityClass)
                              (LODDistance a (cls_m_LOD entityClass)
                                 (vsub (ent_origin (ents ! i)) (sa_playerPos a)));
                          ofs = \<lparr> ofs_offset = idVec3 0 0 0, ofs_angles = ent_angles (ents ! i),
                                  ofs_lod = m_LODLevel + 1, ofs_color = ent_color (ents ! i),
                                  ofs_scale = ent_scale (ents ! i), ofs_flags = 0 \<rparr>;
                          sortedOffsets = [\<lparr> so_ofs = ofs, so_entity = i \<rparr>];
                          maxModelCount = h_GetMaxModelCount h tempModel;
                          (ents, sortedOffsets, merged, mergedCount, PseudoClass) =
                            fold (combine_step h a multiPVS pvs max_combine_distance entityClass i)
                              [i + 1..<n] (ents, sortedOffsets, 0, mergedCount, PseudoClass)
                      in if merged > 0 then
                           (let (ents, sortedOffsets) =
                                  select_nearest merged maxModelCount (ents, sortedOffsets);
                                PseudoClass = PseudoClass\<lparr>cls_offsets := map so_ofs sortedOffsets\<rparr>;
                                clipLoaded =
                                  (cls_solid entityClass \<and>
                                   (cls_clip PseudoClass \<noteq> None
                                    \<or> h_LoadClipModel h (lowest_LOD_model h entityClass)));
                                PseudoClass =
                                  (if clipLoaded then
                                     PseudoClass\<lparr>cls_physicsObj :=
                                       Some \<lparr> po_origin = ent_origin (ents ! i),
                                              po_axis = h_ToMat3 h (idAngles 0 0 0) \<rparr>\<rparr>
                                   else PseudoClass);
                                ents = fold mark_combined sortedOffsets ents;
                                ents = ents[i := (ents ! i)\<lparr>
                                         ent_classIdx := int (length classes),
                                         ent_flags := ent_flags (ents ! i) + SEED_ENTITY_PSEUDO,
                                         ent_angles := idAngles 0 0 0\<rparr>]
                            in (ents, classes @ [PseudoClass], mergedCount, PseudoClass))
                         else (ents, classes, mergedCount, PseudoClass)))))"

text \<open>
  \<^verbatim>\<open>Seed::CombineEntities\<close>. \<open>uninit_class\<close> and \<open>uninit_area\<close> are the contents of the
  locals \<^verbatim>\<open>PseudoClass\<close> and \<^verbatim>\<open>iPVSAreas[0]\<close> at their declaration.
\<close>

definition CombineEntities :: "host \<Rightarrow> seed_args \<Rightarrow> seed_class \<Rightarrow> int \<Rightarrow> seed \<Rightarrow> seed" where
  "CombineEntities h a uninit_class uninit_area s =
     (if \<not> m_bCombine s then s
      else
        (let max_combine_distance = sa_combine_distance a;
             max_combine_distance = (if max_combine_distance < 10 then 10 else max_combine_distance);
             max_combine_distance = max_combine_distance * max_combine_distance;
             multiPVS = (m_iNumPVSAreas s > 1);
             pvs = (if multiPVS
                    then fst (fold (pvs_step h (m_Classes s)) (m_Entities s) ([], uninit_area))
                    else []);
             n = length (m_Entities s);
             (ents, classes, mergedCount, PseudoClass) =
               fold (combine_entity h a multiPVS pvs max_combine_distance n) [0..<n - 1]
                 (m_Entities s, m_Classes s, 0, uninit_class);
             ents = (if mergedCount > 0 then filter (\<lambda>e. ent_classIdx e \<noteq> -1) ents else ents)
         in s\<lparr>m_Entities := ents, m_Classes := classes\<rparr>))"

text \<open>\<^verbatim>\<open>Seed::PrepareEntities\<close>: the placement, then the combiner.\<close>

definition PrepareEntities ::
  "host \<Rightarrow> world \<Rightarrow> seed_args \<Rightarrow> seed_entity \<Rightarrow> seed_class \<Rightarrow> int \<Rightarrow> seed \<Rightarrow> seed" where
  "PrepareEntities h w a uninit uninit_class uninit_area s =
     CombineEntities h a uninit_class uninit_area (PlaceEntities h w a uninit s)"

subsection \<open>Seed::SpawnEntity, Seed::CullEntity and Seed::Event_CullAll\<close>

text \<open>C's logical negation \<^verbatim>\<open>!\<close> on an integer: 1 for 0, and 0 for every other value.\<close>

definition logical_not :: "32 word \<Rightarrow> 32 word" where
  "logical_not v = (if v = 0 then 1 else 0)"

definition SPAWN_LIMIT :: "host \<Rightarrow> int" where
  "SPAWN_LIMIT h = int (h_MAX_GENTITIES h) - 100"

text \<open>
  Modelled from the spec: \<^verbatim>\<open>gameLocal.SpawnEntityDef\<close> is not among the sources; the
  spec has the spawn facility create a live object from a definition name and an argument
  set (classname, model, origin, skin, color). The object is created at the origin of the
  arguments, unrotated, with its own physics, and thinking.
\<close>

definition SpawnEntityDef :: "string \<Rightarrow> string \<Rightarrow> idVec3 \<Rightarrow> string \<Rightarrow> idVec3 \<Rightarrow> live_entity" where
  "SpawnEntityDef classname model origin skin color =
     \<lparr> le_defName = classname, le_model = model, le_skin = skin, le_color = color,
       le_origin = origin, le_axis = mat3_identity, le_multi = None,
       le_velocity = vec3_origin, le_thinking = True \<rparr>"

text \<open>
  Lines 3172 to 3276: what \<^verbatim>\<open>SpawnEntity\<close> does to the new object \<open>ent2\<close> and to the SEED
  according to the class. For a pseudo class the object gets the physics object of the
  class, which is moved to the origin of the entity. A moveable that was never spawned
  gets a random impulse. The duplication of render models is not modelled.
\<close>

definition spawn_by_class ::
  "host \<Rightarrow> seed_entity \<Rightarrow> nat \<Rightarrow> seed_class \<Rightarrow> live_entity \<times> seed \<Rightarrow> live_entity \<times> seed" where
  "spawn_by_class h ent classIdx lclass st =
     (case st of (ent2, s) \<Rightarrow>
        if cls_pseudo lclass \<or> cls_classname lclass = FUNC_DUMMY then
          (if cls_pseudo lclass then
             (let ent2 = ent2\<lparr>le_multi := Some classIdx, le_thinking := True\<rparr>;
                  lclass = lclass\<lparr>cls_physicsObj :=
                             map_option (\<lambda>p. p\<lparr>po_origin := ent_origin ent\<rparr>) (cls_physicsObj lclass)\<rparr>
              in (ent2, s\<lparr>m_Classes := (m_Classes s)[classIdx := lclass],
                           m_iNumStaticMulties := m_iNumStaticMulties s + 1\<rparr>))
           else (ent2, s))
        else if h_IsMoveable h (cls_classname lclass)
                \<and> (ent_flags ent AND SEED_ENTITY_SPAWNED) = 0 then
          (let impulse = vsub (cls_impulse_max lclass) (cls_impulse_min lclass);
               (r1, sd) = RandomFloat (m_iSeed s);
               (r2, sd) = RandomFloat sd;
               (r3, sd) = RandomFloat sd;
               impulse = idVec3 (vx impulse * r1 + vx (cls_impulse_min lclass))
                                (vy impulse * r2 + vy (cls_impulse_min lclass))
                                (vz impulse * r3 + vz (cls_impulse_min lclass))
           in (ent2\<lparr>le_velocity := h_PolarToVec3 h (vx impulse) (vy impulse) (vz impulse)\<rparr>,
               s\<lparr>m_iSeed := sd\<rparr>))
        else (ent2, s))"

text \<open>
  \<^verbatim>\<open>Seed::SpawnEntity\<close> (lines 3082 to 3285): whether the entity was spawned, the SEED
  and the world.
\<close>

definition SpawnEntity :: "host \<Rightarrow> nat \<Rightarrow> bool \<Rightarrow> seed \<times> world \<Rightarrow> bool \<times> seed \<times> world" where
  "SpawnEntity h idx managed sw =
     (case sw of (s, w) \<Rightarrow>
        (let ent = m_Entities s ! idx;
             classIdx = nat (ent_classIdx ent);
             lclass = m_Classes s ! classIdx
         in if int (w_num_entities w) > SPAWN_LIMIT h then (False, s, w)
            else if h_FindEntityDefDict h (cls_classname lclass) then
              (case h_SpawnSlot h w (cls_classname lclass) of
                 None \<Rightarrow> (False, s, w)
               | Some entityNumber \<Rightarrow>
                   (let ent2 = SpawnEntityDef (cls_classname lclass) (cls_modelname lclass)
                                 (ent_origin ent) (m_Skins s ! ent_skinIdx ent)
                                 (h_UnpackColor h (ent_color ent));
                        ent = ent\<lparr>ent_entity := entityNumber\<rparr>;
                        ent2 = ent2\<lparr>le_axis := h_ToMat3 h (ent_angles ent)\<rparr>;
                        ent2 = (if managed then ent2\<lparr>le_thinking := False\<rparr> else ent2);
                        s = s\<lparr>m_iNumExisting := m_iNumExisting s + 1,
                               m_iNumVisible := m_iNumVisible s + 1\<rparr>;
                        (ent2, s) = spawn_by_class h ent classIdx lclass (ent2, s);
                        ent = ent\<lparr>ent_flags := SEED_ENTITY_SPAWNED + SEED_ENTITY_EXISTS
                                     + (ent_flags ent AND SEED_ENTITY_PSEUDO)\<rparr>
                    in (True, s\<lparr>m_Entities := (m_Entities s)[idx := ent]\<rparr>,
                        w\<lparr>w_entities := (w_entities w)(entityNumber \<mapsto> ent2),
                           w_num_entities := max (w_num_entities w) (Suc entityNumber)\<rparr>)))
            else (False, s, w)))"

text \<open>
  \<^verbatim>\<open>Seed::CullEntity\<close> (lines 3292 to 3348). Line 3338 is
  \<^verbatim>\<open>ent->flags &= (! SEED_ENTITY_EXISTS)\<close>, with the logical negation. The removal of
  the live object is an event that is posted, not processed.
\<close>

definition CullEntity :: "host \<Rightarrow> nat \<Rightarrow> seed \<times> world \<Rightarrow> bool \<times> seed \<times> world" where
  "CullEntity h idx sw =
     (case sw of (s, w) \<Rightarrow>
        (let ent = m_Entities s ! idx;
             lclass = m_Classes s ! nat (ent_classIdx ent)
         in if (ent_flags ent AND SEED_ENTITY_EXISTS) = 0 then (False, s, w)
            else
              (case w_entities w (ent_entity ent) of
                 None \<Rightarrow> (False, s, w)
               | Some ent2 \<Rightarrow>
                   (let entityNumber = ent_entity ent;
                        ent = ent\<lparr>ent_origin := live_origin (m_Classes s) ent2,
                                  ent_angles := h_ToAngles h (live_axis (m_Classes s) ent2)\<rparr>;
                        s = (if \<not> cls_pseudo lclass then s
                             else s\<lparr>m_iNumStaticMulties := m_iNumStaticMulties s - 1\<rparr>);
                        s = s\<lparr>m_iNumExisting := m_iNumExisting s - 1,
                               m_iNumVisible := m_iNumVisible s - 1\<rparr>;
                        ent = ent\<lparr>ent_flags := ent_flags ent + SEED_ENTITY_HIDDEN\<rparr>;
                        ent = ent\<lparr>ent_flags := ent_flags ent AND logical_not SEED_ENTITY_EXISTS\<rparr>;
                        ent = ent\<lparr>ent_entity := 0\<rparr>
                    in (True, s\<lparr>m_Entities := (m_Entities s)[idx := ent]\<rparr>,
                        w\<lparr>w_removing := w_removing w @ [entityNumber]\<rparr>)))))"

text \<open>\<^verbatim>\<open>Seed::Event_CullAll\<close> (lines 3572 to 3582).\<close>

definition Event_CullAll :: "host \<Rightarrow> seed \<times> world \<Rightarrow> seed \<times> world" where
  "Event_CullAll h sw =
     (case fold (\<lambda>i sw. snd (CullEntity h i sw)) [0..<length (m_Entities (fst sw))] sw of
        (s, w) \<Rightarrow>
          (s\<lparr>m_iNumStaticMulties := 0, m_iNumExisting := 0, m_iNumVisible := 0\<rparr>, w))"

text \<open>
  \<^verbatim>\<open>Seed::Think\<close>, lines 3390 to 3397: every entity is culled, the generator of the
  class seeds restarts from the stored seed, and the entities are prepared again.
\<close>

definition reseed :: "seed \<Rightarrow> seed" where
  "reseed s = s\<lparr>m_iSeed_2 := m_iOrgSeed s\<rparr>"

definition Think_redistribute ::
  "host \<Rightarrow> seed_args \<Rightarrow> seed_entity \<Rightarrow> seed_class \<Rightarrow> int \<Rightarrow> seed \<times> world \<Rightarrow> seed \<times> world" where
  "Think_redistribute h a uninit uninit_class uninit_area sw =
     (case Event_CullAll h sw of
        (s, w) \<Rightarrow> (PrepareEntities h w a uninit uninit_class uninit_area (reseed s), w))"

subsection \<open>Concrete values for the closed examples\<close>

text \<open>
  A class as \<^verbatim>\<open>AddClassFromEntity\<close> builds it from an entity without any \<^verbatim>\<open>seed_\<close>
  spawnarg, of size 16 x 16 x 16, and an entity of class 0 as the placement records it.
\<close>

definition plain_class :: seed_class where
  "plain_class =
     \<lparr> cls_classname = ''atdm:rock'', cls_modelname = ''rock.lwo'', cls_pseudo = False,
       cls_watch = False, cls_maxEntities = 0, cls_numEntities = 0, cls_score = 1, cls_seed = 0,
       cls_cullDist = 0, cls_spawnDist = 0, cls_spacing = 0, cls_bunching = 0, cls_sink_min = 0,
       cls_sink_max = 0, cls_scale_min = idVec3 1 1 1, cls_scale_max = idVec3 1 1 1,
       cls_origin = idVec3 0 0 0, cls_offset = idVec3 0 0 0, cls_nocollide = 1,
       cls_nocombine = False, cls_solid = True, cls_falloff = 0, cls_floor = False,
       cls_noinhibit = False, cls_size = idVec3 16 16 16, cls_avgSize = Some 256,
       cls_color_min = idVec3 1 1 1, cls_color_max = idVec3 1 1 1,
       cls_impulse_min = idVec3 0 (-90) 0, cls_impulse_max = idVec3 0 90 360,
       cls_z_invert = False, cls_z_min = -1000000, cls_z_max = 1000000, cls_z_fadein = 0,
       cls_z_fadeout = 0, cls_defaultProb = 1, cls_skins = [0], cls_materials = [],
       cls_func_x = 0, cls_func_y = 0, cls_func_s = 0, cls_func_a = 0, cls_func_Xt = 0,
       cls_func_Yt = 0, cls_func_f = 0, cls_func_min = 0, cls_func_max = 0, cls_imgmap = 0,
       cls_map_invert = False, cls_map_scale_x = 1, cls_map_scale_y = 1, cls_map_ofs_x = 0,
       cls_map_ofs_y = 0, cls_m_LOD = None, cls_hModel = None, cls_clip = None,
       cls_physicsObj = None, cls_offsets = [] \<rparr>"

definition plain_entity :: seed_entity where
  "plain_entity =
     \<lparr> ent_skinIdx = 0, ent_origin = idVec3 0 0 0, ent_angles = idAngles 0 0 0,
       ent_scale = idVec3 1 1 1, ent_color = 0, ent_flags = SEED_ENTITY_HIDDEN,
       ent_entity = 0, ent_classIdx = 0 \<rparr>"

text \<open>The spawnargs of a SEED with \<^verbatim>\<open>max_entities\<close> 40 at a given \<^verbatim>\<open>cv_lod_bias\<close>.\<close>

definition cap40 :: "real \<Rightarrow> count_args" where
  "cap40 bias =
     \<lparr> ca_density = 1, ca_lod_scale_density = True, ca_max_entities = 40,
       ca_lod_scaling_limit = 10, ca_cv_lod_bias = bias, ca_size = idVec3 1024 1024 64 \<rparr>"

text \<open>
  An engine for the closed examples: a trace hits nothing, every point is inside every
  box, no two boxes or bounds intersect, nothing is rotated, polar coordinates are laid
  on the x axis, every model is found and holds at most two parts, a new entity gets the
  first number after the used ones.
\<close>

definition plain_host :: host where
  "plain_host =
     \<lparr> h_Sqrt = sqrt, h_Pow = (\<lambda>d f. d powr f), h_PolarToVec3 = (\<lambda>r t p. idVec3 r 0 0),
       h_ToMat3 = (\<lambda>a. mat3_identity), h_ToAngles = (\<lambda>m. idAngles 0 0 0),
       h_VecMulMat3 = (\<lambda>v m. v), h_GetMapDataAt = (\<lambda>m u v. 255),
       h_TracePoint = (\<lambda>w s e. (1, SURFTYPE_OTHER, [])),
       h_TraceBounds = (\<lambda>w s e b. (1, e, mat3_identity)),
       h_ContainsPoint = (\<lambda>b p. True), h_IntersectsBox = (\<lambda>b c. False),
       h_BoxExpand = (\<lambda>b d. b), h_BoundsExpand = (\<lambda>b d. b),
       h_IntersectsBounds = (\<lambda>b c. False), h_BoundsMulMat3 = (\<lambda>b m. b),
       h_PackColor = (\<lambda>c. 0), h_UnpackColor = (\<lambda>c. idVec3 1 1 1),
       h_FindModel = (\<lambda>n. Some 0), h_LoadClipModel = (\<lambda>n. True),
       h_GetMaxModelCount = (\<lambda>m. 2),
       h_GetPVSAreas = (\<lambda>s p a. [0]), h_LODLevel = (\<lambda>l d. 0),
       h_FindEntityDefDict = (\<lambda>n. True), h_SpawnSlot = (\<lambda>w n. Some (w_num_entities w)),
       h_IsMoveable = (\<lambda>n. False), h_MAX_GENTITIES = 8192, h_right_to_left = False \<rparr>"

definition plain_args :: seed_args where
  "plain_args =
     \<lparr> sa_size = idVec3 1024 1024 64, sa_axis = mat3_identity, sa_spacing = 0,
       sa_rotate_min = idAngles 0 0 0, sa_rotate_max = idAngles 5 360 5,
       sa_combine_distance = 1024, sa_playerPos = idVec3 0 0 0,
       sa_gravityNormal = idVec3 0 0 (-1), sa_cv_lod_bias = 1 \<rparr>"

text \<open>A SEED with one class and the given entities, and a world with the given objects.\<close>

definition plain_seed :: "seed_class list \<Rightarrow> seed_entity list \<Rightarrow> seed" where
  "plain_seed classes ents =
     \<lparr> m_iSeed = 3, m_iSeed_2 = 7, m_iOrgSeed = 7, m_Entities = ents, m_Classes = classes,
       m_Inhibitors = [], m_Skins = [[]], m_origin = idVec3 0 0 0, m_iNumEntities = 40,
       m_iNumExisting = 0, m_iNumVisible = 0, m_iNumStaticMulties = 0, m_iNumPVSAreas = 1,
       m_bCombine = True \<rparr>"

definition plain_world :: world where
  "plain_world = \<lparr> w_entities = Map.empty, w_num_entities = 0, w_removing = [] \<rparr>"

text \<open>An entity that is spawned as the live object number 0, a rock at (10, 20, 30).\<close>

definition spawned_entity :: seed_entity where
  "spawned_entity =
     plain_entity\<lparr>ent_flags := SEED_ENTITY_SPAWNED + SEED_ENTITY_EXISTS, ent_entity := 0\<rparr>"

definition rock :: live_entity where
  "rock = SpawnEntityDef ''atdm:rock'' ''rock.lwo'' (idVec3 10 20 30) [] (idVec3 1 1 1)"

definition rock_world :: world where
  "rock_world = plain_world\<lparr>w_entities := [0 \<mapsto> rock], w_num_entities := 1\<rparr>"

text \<open>
  Two entities placed already, the first of class 1 at (100, 0, 0) and the second of
  class 0 at the origin, and a class 0 of size 3 x 4 x 5 that always bunches.
\<close>

definition other_entity :: seed_entity where
  "other_entity = plain_entity\<lparr>ent_classIdx := 1, ent_origin := idVec3 100 0 0\<rparr>"

definition bunchy_class :: seed_class where
  "bunchy_class = plain_class\<lparr>cls_bunching := 1, cls_size := idVec3 3 4 5\<rparr>"

text \<open>Three entities of class 0 on a line, all within the combine distance.\<close>

definition near_entities :: "seed_entity list" where
  "near_entities =
     [plain_entity, plain_entity\<lparr>ent_origin := idVec3 10 0 0\<rparr>,
      plain_entity\<lparr>ent_origin := idVec3 20 0 0\<rparr>]"

text \<open>An engine in which no point is inside the box of the SEED: every attempt fails.\<close>

definition reject_host :: host where
  "reject_host = plain_host\<lparr>h_ContainsPoint := (\<lambda>b p. False)\<rparr>"

text \<open>
  A SEED before its first distribution, and the same SEED later: with a pseudo class, a
  spawned entity, and other values in both generators and in the seed of its class.
\<close>

definition two_rocks :: seed_class where
  "two_rocks = plain_class\<lparr>cls_numEntities := 2\<rparr>"

definition fresh_seed :: seed where
  "fresh_seed = plain_seed [two_rocks] []"

definition used_seed :: seed where
  "used_seed =
     (plain_seed [two_rocks\<lparr>cls_seed := 99\<rparr>, plain_class\<lparr>cls_pseudo := True\<rparr>] [spawned_entity])
       \<lparr>m_iSeed := 1234, m_iSeed_2 := 5678, m_iNumExisting := 1\<rparr>"



text \<open>
  A SEED whose only class watches over the rocks of the map, as \<^verbatim>\<open>AddClassFromEntity\<close>
  builds it for a target with \<^verbatim>\<open>seed_watch_brethren\<close> (its score is 0), and a second
  content of the local \<^verbatim>\<open>SeedEntity\<close> at its declaration (line 1779), with another
  scale and colour.
\<close>

definition watching_seed :: seed where
  "watching_seed = plain_seed [plain_class\<lparr>cls_watch := True, cls_score := 0\<rparr>] []"

definition stale_entity :: seed_entity where
  "stale_entity = plain_entity\<lparr>ent_scale := idVec3 2 2 2, ent_color := 255\<rparr>"

subsection \<open>The words of the spec\<close>







text \<open>
  What claim C2 holds fixed between two runs: the stored seed, the classes that are not
  pseudo classes (whatever the seed each got in an earlier run), the inhibitors, and the
  settings of the distribution that \<^verbatim>\<open>PrepareEntities\<close> reads from the SEED.
\<close>

definition real_classes :: "seed \<Rightarrow> seed_class list" where
  "real_classes s = map (\<lambda>c. c\<lparr>cls_seed := 0\<rparr>) (filter (\<lambda>c. \<not> cls_pseudo c) (m_Classes s))"

definition same_tables :: "seed \<Rightarrow> seed \<Rightarrow> bool" where
  "same_tables s s' =
     (m_iOrgSeed s = m_iOrgSeed s' \<and> real_classes s = real_classes s'
      \<and> m_Inhibitors s = m_Inhibitors s' \<and> m_Skins s = m_Skins s'
      \<and> m_origin s = m_origin s' \<and> m_iNumEntities s = m_iNumEntities s'
      \<and> m_bCombine s = m_bCombine s' \<and> m_iNumPVSAreas s = m_iNumPVSAreas s')"

chapter \<open>Properties\<close>

section \<open>Falloff parsing\<close>

lemma ParseFalloff_wrong:
  "GetString dict ''seed_falloff'' dn \<notin> falloff_names \<Longrightarrow>
   ParseFalloff atof dict dn df a = (0, a, [Wrong_falloff (GetString dict ''seed_falloff'' dn)])"
  by (simp add: ParseFalloff_def falloff_names_def Let_def)

text \<open>
  C4 (as amended). The parser recognizes exactly the six names none, cutoff, power, root,
  linear and func: each gives its kind without a wrong-falloff warning; for power and root
  the shape factor is read and a factor below 2 becomes 2 with a warning; every other name
  gives kind 0 (none) with the wrong-falloff warning and leaves the factor alone.
\<close>

theorem ParseFalloff_recognizes:
  "ParseFalloff atof dict defaultName defaultFactor func_a =
   falloff_spec atof dict defaultName defaultFactor func_a"
  by (simp add: ParseFalloff_def falloff_spec_def falloff_names_def falloff_kind_def Let_def max_def)

text \<open>
  C4 (as stated) fails: the name \<open>function\<close> is not recognized. It gives the none falloff
  with the wrong-falloff warning, while \<open>func\<close> gives kind 5 without a warning.
\<close>

theorem ParseFalloff_function_counterexample:
  "ParseFalloff (\<lambda>s. 0) [''seed_falloff'' \<mapsto> ''function''] ''none'' ''2'' 0
     = (0, 0, [Wrong_falloff ''function''])
   \<and> ParseFalloff (\<lambda>s. 0) [''seed_falloff'' \<mapsto> ''func''] ''none'' ''2'' 0 = (5, 0, [])"
  by (simp add: ParseFalloff_def GetString_def Let_def)

section \<open>The density correction of a class\<close>

lemma fImgDensity_map_ge:
  "0 < img_w img \<Longrightarrow> 0 < img_h img \<Longrightarrow> 0.001 \<le> fImgDensity (Some img) mi sx sy ox oy"
  by (simp add: fImgDensity_def Let_def)

lemma density_divisor_pos:
  "0 < fImg \<Longrightarrow> 0 < density_divisor d b fImg"
  by (simp add: density_divisor_def Let_def max_def)

text \<open>
  C5 (the code at the failing input). For a class without an image map the density
  correction factor keeps the value 0 of its declaration: it is below the epsilon 0.001, the
  divisor \<^verbatim>\<open>fBaseDensity * fImgDensity * fDensity\<close> is 0, and the average size is not a
  finite number. With a map the factor is at least 0.001 (\<open>fImgDensity_map_ge\<close>).
\<close>

theorem fImgDensity_no_map_zero:
  "fImgDensity None False 1 1 0 0 = 0
   \<and> \<not> 0.001 \<le> fImgDensity None False 1 1 0 0
   \<and> density_divisor 1 1 (fImgDensity None False 1 1 0 0) = 0
   \<and> avgSize (idVec3 16 16 16) 0 0 1 1 (fImgDensity None False 1 1 0 0) = None"
  by (simp add: fImgDensity_def density_divisor_def avgSize_def Let_def)

section \<open>The target counts\<close>

lemma LODBIAS_neutral: "LODBIAS 1 = 1"
  by (simp add: LODBIAS_def)

lemma int32_small: "- 2147483648 \<le> x \<Longrightarrow> x < 2147483648 \<Longrightarrow> int32 x = x"
  by (simp add: int32_def)

text \<open>
  C8 (as amended). Two classes that are neither pseudo nor watch, with scores 1 and 3 and
  no cap of their own, under an overall cap of 40: when the cap is not rescaled (the LOD
  bias factor is 1, or the cap is not above \<^verbatim>\<open>lod_scaling_limit\<close>), the classes get 10
  and 30 instances and the overall target is 40.
\<close>

theorem ComputeEntityCount_scores_1_3:
  assumes "\<not> cls_pseudo c1" "\<not> cls_watch c1" "\<not> cls_pseudo c2" "\<not> cls_watch c2"
    and "cls_score c1 = 1" "cls_score c2 = 3"
    and "cls_maxEntities c1 = 0" "cls_maxEntities c2 = 0"
    and "ca_max_entities a = 40"
    and "LODBIAS (ca_cv_lod_bias a) = 1 \<or> 40 \<le> ca_lod_scaling_limit a"
  shows "ComputeEntityCount a [c1, c2]
         = ([c1\<lparr>cls_numEntities := 10\<rparr>, c2\<lparr>cls_numEntities := 30\<rparr>], 40)"
proof -
  have cap: "(if (40::int) > 0 \<and> real_of_int 40 > ca_lod_scaling_limit a
              then trunc (real_of_int 40 * LODBIAS (ca_cv_lod_bias a)) else 40) = 40"
    using assms(10) by (auto simp: trunc_def)
  have n1: "class_count 40 4 f c1 = 10" for f
    using assms(5,7) by (simp add: class_count_def cdiv_def int32_small)
  have n2: "class_count 40 4 f c2 = 30" for f
    using assms(6,8) by (simp add: class_count_def cdiv_def int32_small)
  show ?thesis
    unfolding ComputeEntityCount_def Let_def assms(9) cap
    using assms(1-6) by (simp add: n1 n2 int32_small)
qed

theorem ComputeEntityCount_scores_1_3_witness:
  "ComputeEntityCount (cap40 1) [plain_class, plain_class\<lparr>cls_score := 3\<rparr>]
   = ([plain_class\<lparr>cls_numEntities := 10\<rparr>,
       plain_class\<lparr>cls_score := 3, cls_numEntities := 30\<rparr>], 40)"
  using ComputeEntityCount_scores_1_3 [of plain_class "plain_class\<lparr>cls_score := 3\<rparr>" "cap40 1"]
  by (simp add: plain_class_def cap40_def LODBIAS_neutral)

text \<open>
  C8 (as stated) fails: with the quality setting \<^verbatim>\<open>cv_lod_bias\<close> at 1.5 the cap of 40 is
  above the default \<^verbatim>\<open>lod_scaling_limit\<close> of 10 and is rescaled to 45; the classes get 11
  and 33 instances.
\<close>

theorem ComputeEntityCount_bias_counterexample:
  "ComputeEntityCount (cap40 1.5) [plain_class, plain_class\<lparr>cls_score := 3\<rparr>]
   = ([plain_class\<lparr>cls_numEntities := 11\<rparr>,
       plain_class\<lparr>cls_score := 3, cls_numEntities := 33\<rparr>], 45)"
  by (simp add: ComputeEntityCount_def cap40_def LODBIAS_def class_count_def cdiv_def
      trunc_def plain_class_def Let_def int32_small)


section \<open>The flags of an entity\<close>

lemmas flag_defs =
  SEED_ENTITY_HIDDEN_def SEED_ENTITY_EXISTS_def SEED_ENTITY_SPAWNED_def SEED_ENTITY_PSEUDO_def

lemmas plain_defs =
  plain_host_def plain_seed_def plain_class_def plain_entity_def plain_world_def plain_args_def

text \<open>The placement records an entity as hidden, and a spawn makes it exist.\<close>

lemma finish_entity_flags:
  "ent_flags (fst (finish_entity h c i e sd)) = SEED_ENTITY_HIDDEN"
  by (simp add: finish_entity_def Let_def split_def)

lemma spawn_by_class_entities:
  "m_Entities (snd (spawn_by_class h ent k lclass (ent2, s))) = m_Entities s"
  by (simp add: spawn_by_class_def Let_def split_def)

lemma SpawnEntity_flags:
  assumes "SpawnEntity h idx managed (s, w) = (True, s', w')" and "idx < length (m_Entities s)"
  shows "ent_flags (m_Entities s' ! idx)
         = SEED_ENTITY_SPAWNED + SEED_ENTITY_EXISTS
           + (ent_flags (m_Entities s ! idx) AND SEED_ENTITY_PSEUDO)"
  using assms
  by (auto simp: SpawnEntity_def Let_def split_def spawn_by_class_entities
      split: if_splits option.splits)

text \<open>A cull that succeeds leaves no flag at all.\<close>

lemma CullEntity_flags:
  assumes "CullEntity h idx (s, w) = (True, s', w')" and "idx < length (m_Entities s)"
  shows "ent_flags (m_Entities s' ! idx) = 0"
  using assms
  by (auto simp: CullEntity_def Let_def logical_not_def SEED_ENTITY_EXISTS_def
      split: if_splits option.splits)

text \<open>
  C1 (the code at the failing input). A hidden entity is spawned and then culled: both
  calls succeed, after the spawn the flags are spawned and exists, and after the cull the
  flags are 0, so neither hidden nor exists is set.
\<close>

theorem CullEntity_clears_hidden:
  "(case SpawnEntity plain_host 0 True (plain_seed [plain_class] [plain_entity], plain_world) of
      (spawned, s1, w1) \<Rightarrow>
        (case CullEntity plain_host 0 (s1, w1) of
           (culled, s2, w2) \<Rightarrow>
             spawned \<and> culled
             \<and> ent_flags (m_Entities s1 ! 0) = SEED_ENTITY_SPAWNED + SEED_ENTITY_EXISTS
             \<and> ent_flags (m_Entities s2 ! 0) = 0
             \<and> ent_flags (m_Entities s2 ! 0) AND SEED_ENTITY_HIDDEN = 0
             \<and> ent_flags (m_Entities s2 ! 0) AND SEED_ENTITY_EXISTS = 0))"
  by (simp add: SpawnEntity_def CullEntity_def plain_defs Let_def SPAWN_LIMIT_def
      SpawnEntityDef_def spawn_by_class_def FUNC_DUMMY_def logical_not_def live_origin_def
      live_axis_def flag_defs)

section \<open>Cull and spawn again\<close>

lemma CullEntity_result:
  assumes "idx < length (m_Entities s)"
    and "ent_flags (m_Entities s ! idx) AND SEED_ENTITY_EXISTS \<noteq> 0"
    and "w_entities w (ent_entity (m_Entities s ! idx)) = Some old"
  shows "\<exists>s1 w1. CullEntity h idx (s, w) = (True, s1, w1)
           \<and> m_Classes s1 = m_Classes s
           \<and> length (m_Entities s1) = length (m_Entities s)
           \<and> ent_origin (m_Entities s1 ! idx) = live_origin (m_Classes s) old
           \<and> ent_angles (m_Entities s1 ! idx) = h_ToAngles h (live_axis (m_Classes s) old)
           \<and> ent_classIdx (m_Entities s1 ! idx) = ent_classIdx (m_Entities s ! idx)"
  using assms by (simp add: CullEntity_def Let_def)

lemma SpawnEntity_result:
  assumes "SpawnEntity h idx managed (s1, w1) = (True, s2, w2)"
    and "idx < length (m_Entities s1)"
    and "nat (ent_classIdx (m_Entities s1 ! idx)) < length (m_Classes s1)"
  shows "\<exists>new. w_entities w2 (ent_entity (m_Entities s2 ! idx)) = Some new
           \<and> le_origin new = ent_origin (m_Entities s1 ! idx)
           \<and> le_axis new = h_ToMat3 h (ent_angles (m_Entities s1 ! idx))
           \<and> le_multi new =
               (if cls_pseudo (m_Classes s1 ! nat (ent_classIdx (m_Entities s1 ! idx)))
                then Some (nat (ent_classIdx (m_Entities s1 ! idx))) else None)
           \<and> (cls_pseudo (m_Classes s1 ! nat (ent_classIdx (m_Entities s1 ! idx))) \<longrightarrow>
                cls_physicsObj (m_Classes s2 ! nat (ent_classIdx (m_Entities s1 ! idx)))
                = map_option (\<lambda>p. p\<lparr>po_origin := ent_origin (m_Entities s1 ! idx)\<rparr>)
                    (cls_physicsObj (m_Classes s1 ! nat (ent_classIdx (m_Entities s1 ! idx)))))"
  using assms
  by (auto simp: SpawnEntity_def Let_def split_def spawn_by_class_def SpawnEntityDef_def
      split: if_splits option.splits)

text \<open>
  An entity of the SEED exists, its live object \<open>old\<close> is in the world and has the
  physics that \<^verbatim>\<open>SpawnEntity\<close> gives to an object of its class (that of the class for a
  pseudo class, its own otherwise). Then the cull succeeds, and if the spawn that follows
  succeeds, the new live object has the origin that \<open>old\<close> had before the cull. For a
  pseudo class it has the axis of \<open>old\<close> as well, that of the physics object of the
  class. For any other class its axis is the matrix of the angles that the cull read
  from the axis of \<open>old\<close> (lines 3312 and 3153): whether that is the axis of \<open>old\<close> again
  is decided by \<^verbatim>\<open>idMat3::ToAngles\<close> and \<^verbatim>\<open>idAngles::ToMat3\<close>, which are not among
  the sources.
\<close>

lemma cull_respawn_transform:
  assumes idx: "idx < length (m_Entities s)"
    and cls: "nat (ent_classIdx (m_Entities s ! idx)) < length (m_Classes s)"
    and ex: "ent_flags (m_Entities s ! idx) AND SEED_ENTITY_EXISTS \<noteq> 0"
    and live: "w_entities w (ent_entity (m_Entities s ! idx)) = Some old"
    and phys: "le_multi old =
                 (if cls_pseudo (m_Classes s ! nat (ent_classIdx (m_Entities s ! idx)))
                  then Some (nat (ent_classIdx (m_Entities s ! idx))) else None)"
    and po: "cls_pseudo (m_Classes s ! nat (ent_classIdx (m_Entities s ! idx))) \<longrightarrow>
               cls_physicsObj (m_Classes s ! nat (ent_classIdx (m_Entities s ! idx))) \<noteq> None"
    and sp: "SpawnEntity h idx managed (snd (CullEntity h idx (s, w))) = (True, s2, w2)"
  shows "fst (CullEntity h idx (s, w))
         \<and> (\<exists>new. w_entities w2 (ent_entity (m_Entities s2 ! idx)) = Some new
               \<and> live_origin (m_Classes s2) new = live_origin (m_Classes s) old
               \<and> live_axis (m_Classes s2) new =
                   (if cls_pseudo (m_Classes s ! nat (ent_classIdx (m_Entities s ! idx)))
                    then live_axis (m_Classes s) old
                    else h_ToMat3 h (h_ToAngles h (live_axis (m_Classes s) old))))"
proof -
  let ?k = "nat (ent_classIdx (m_Entities s ! idx))"
  from CullEntity_result [OF idx ex live, of h] obtain s1 w1 where
    c: "CullEntity h idx (s, w) = (True, s1, w1)"
    and c1: "m_Classes s1 = m_Classes s" "length (m_Entities s1) = length (m_Entities s)"
    and c2: "ent_origin (m_Entities s1 ! idx) = live_origin (m_Classes s) old"
      "ent_angles (m_Entities s1 ! idx) = h_ToAngles h (live_axis (m_Classes s) old)"
      "ent_classIdx (m_Entities s1 ! idx) = ent_classIdx (m_Entities s ! idx)"
    by blast
  from sp c have sp1: "SpawnEntity h idx managed (s1, w1) = (True, s2, w2)" by simp
  from SpawnEntity_result [OF sp1] idx cls c1 c2 obtain new where
    n: "w_entities w2 (ent_entity (m_Entities s2 ! idx)) = Some new"
    and n1: "le_origin new = live_origin (m_Classes s) old"
      "le_axis new = h_ToMat3 h (h_ToAngles h (live_axis (m_Classes s) old))"
      "le_multi new = (if cls_pseudo (m_Classes s ! ?k) then Some ?k else None)"
    and n2: "cls_pseudo (m_Classes s ! ?k) \<longrightarrow>
               cls_physicsObj (m_Classes s2 ! ?k)
               = map_option (\<lambda>p. p\<lparr>po_origin := live_origin (m_Classes s) old\<rparr>)
                   (cls_physicsObj (m_Classes s ! ?k))"
    by auto
  have "live_origin (m_Classes s2) new = live_origin (m_Classes s) old
        \<and> live_axis (m_Classes s2) new =
            (if cls_pseudo (m_Classes s ! ?k) then live_axis (m_Classes s) old
             else h_ToMat3 h (h_ToAngles h (live_axis (m_Classes s) old)))"
  proof (cases "cls_pseudo (m_Classes s ! ?k)")
    case True
    with po obtain p where p: "cls_physicsObj (m_Classes s ! ?k) = Some p" by auto
    with True n1 n2 phys show ?thesis
      by (simp add: live_origin_def live_axis_def)
  next
    case False
    with n1 show ?thesis by (simp add: live_origin_def live_axis_def)
  qed
  with n c show ?thesis by auto
qed

text \<open>The rock at (10, 20, 30) is culled and spawned again: the new object is there.\<close>

lemma cull_respawn_rock:
  "(case SpawnEntity plain_host 0 True
           (snd (CullEntity plain_host 0 (plain_seed [plain_class] [spawned_entity], rock_world))) of
      (spawned, s2, w2) \<Rightarrow>
        spawned
        \<and> (\<exists>new. w_entities w2 (ent_entity (m_Entities s2 ! 0)) = Some new
              \<and> live_origin (m_Classes s2) new = idVec3 10 20 30))"
proof -
  let ?s = "plain_seed [plain_class] [spawned_entity]"
  obtain b s2 w2 where
    sp: "SpawnEntity plain_host 0 True (snd (CullEntity plain_host 0 (?s, rock_world))) = (b, s2, w2)"
    using prod_cases3 by blast
  have b: "b"
    using sp
    by (simp add: SpawnEntity_def CullEntity_def plain_defs Let_def SPAWN_LIMIT_def
        SpawnEntityDef_def spawned_entity_def rock_def rock_world_def spawn_by_class_def
        FUNC_DUMMY_def logical_not_def live_origin_def live_axis_def flag_defs)
  have "fst (CullEntity plain_host 0 (?s, rock_world))
         \<and> (\<exists>new. w_entities w2 (ent_entity (m_Entities s2 ! 0)) = Some new
               \<and> live_origin (m_Classes s2) new = live_origin (m_Classes ?s) rock
               \<and> live_axis (m_Classes s2) new =
                   (if cls_pseudo (m_Classes ?s ! nat (ent_classIdx (m_Entities ?s ! 0)))
                    then live_axis (m_Classes ?s) rock
                    else h_ToMat3 plain_host (h_ToAngles plain_host (live_axis (m_Classes ?s) rock))))"
    apply (rule cull_respawn_transform [where old = rock and managed = True])
    using sp b
    by (simp_all add: plain_defs spawned_entity_def rock_def rock_world_def SpawnEntityDef_def
        live_axis_def flag_defs)
  then show ?thesis
    using sp b by (auto simp: live_origin_def rock_def SpawnEntityDef_def)
qed


section \<open>Bunching\<close>

text \<open>The bunching branch offsets the candidate from the entity at index \<open>bunchTarget\<close>.\<close>

lemma bunch_origin_neighbour:
  "fst (bunch_origin h c i ents origin0 sd)
   = (let distance = h_Sqrt h (vx (cls_size c) * vx (cls_size c) + vy (cls_size c) * vy (cls_size c))
                     + cls_spacing c * 2;
          (r1, sd) = RandomFloat sd; ((r2, r3), sd) = draw2 h sd
      in vadd (h_PolarToVec3 h (2 * distance + r2 * distance / 3) 0 (r3 * 360))
              (vsub (ent_origin (ents ! bunchTarget ents i r1)) origin0))"
  by (simp add: bunch_origin_def Let_def split_def)

text \<open>
  C7 (the code at the failing input). Class 0 is being placed, with bunching 1, after an
  entity of class 1 at (100, 0, 0) and an entity of class 0 at the origin. The list of
  the entities of the same class is \<open>[1]\<close>; the index drawn into that list is 0; it is
  used as an index into \<^verbatim>\<open>m_Entities\<close>, whose entry 0 is of class 1, and the candidate
  is placed around (100, 0, 0).
\<close>

theorem bunching_neighbour_of_other_class:
  "BunchEntities [other_entity, plain_entity] 0 = [1]
   \<and> bunchTarget [other_entity, plain_entity] 0 (fst (RandomFloat (snd (RandomFloat 7)))) = 0
   \<and> ent_classIdx ([other_entity, plain_entity] ! 0) = 1
   \<and> fst (candidate_origin plain_host plain_args bunchy_class 0 [other_entity, plain_entity]
             (idVec3 0 0 0) 7)
     = Some (idVec3 (100 + 10 + 5 / 3 * (4997372 / 8388608)) 0 0)"
  by (simp add: candidate_origin_def bunch_origin_def draw2_def bunchTarget_def BunchEntities_def
      RandomFloat_def IEEE_MASK_def Let_def plain_defs other_entity_def bunchy_class_def
      upt_rec vadd_def vsub_def trunc_def)

text \<open>
  In a program that evaluates the arguments of \<^verbatim>\<open>idPolar3\<close> from right to left the
  radius is another one, and the candidate is placed around (100, 0, 0) all the same.
\<close>

lemma bunching_neighbour_right_to_left:
  "fst (candidate_origin (plain_host\<lparr>h_right_to_left := True\<rparr>) plain_args bunchy_class 0
          [other_entity, plain_entity] (idVec3 0 0 0) 7)
   = Some (idVec3 (100 + 10 + 5 / 3 * (5154859 / 8388608)) 0 0)"
  by (simp add: candidate_origin_def bunch_origin_def draw2_def bunchTarget_def BunchEntities_def
      RandomFloat_def IEEE_MASK_def Let_def plain_defs other_entity_def bunchy_class_def
      upt_rec vadd_def vsub_def trunc_def)

section \<open>The combiner\<close>

lemmas combine_defs =
  CombineEntities_def combine_entity_def combine_step_def select_nearest_def mark_combined_def
  restore_classIdx_def lowest_LOD_model_def LODDistance_def

text \<open>
  C3 (the code at the failing input). The model holds at most 2 parts. Three entities of
  one class lie within the combine distance: the first takes the two others, \<^verbatim>\<open>merged\<close>
  is 2, the test \<^verbatim>\<open>merged > maxModelCount\<close> fails, and the pseudo class gets 3 offsets.
\<close>

theorem combine_exceeds_max:
  "h_GetMaxModelCount plain_host 0 = 2
   \<and> (let s = CombineEntities plain_host plain_args plain_class 0
                (plain_seed [plain_class] near_entities)
      in length (m_Entities s) = 1 \<and> ent_classIdx (m_Entities s ! 0) = 1
         \<and> length (m_Classes s) = 2 \<and> cls_pseudo (m_Classes s ! 1)
         \<and> length (cls_offsets (m_Classes s ! 1)) = 3)"
  by (simp add: combine_defs plain_defs near_entities_def Let_def upt_rec vsub_def
      LengthSqr_def FUNC_DUMMY_def SEED_ENTITY_HIDDEN_def SEED_ENTITY_PSEUDO_def)

text \<open>
  When the test succeeds the offsets are cut to \<^verbatim>\<open>maxModelCount\<close>, the nearest first.
\<close>

lemma select_nearest_cut:
  "merged > maxModelCount \<Longrightarrow>
   snd (select_nearest merged maxModelCount (ents, sortedOffsets))
   = take maxModelCount (sort_key (\<lambda>so. LengthSqr (ofs_offset (so_ofs so))) sortedOffsets)"
  by (simp add: select_nearest_def Let_def)

section \<open>Spacing and collision\<close>

lemma collides_loop_iff:
  "collides_loop h tb tx ps
   = (\<exists>p \<in> set ps. h_IntersectsBounds h (fst p) tb \<and> h_IntersectsBox h (snd p) tx)"
  by (induction ps) (auto split: if_splits)

lemma collides_loop_nth:
  "collides_loop h tb tx ps
   = (\<exists>k < length ps. h_IntersectsBounds h (fst (ps ! k)) tb
                      \<and> h_IntersectsBox h (snd (ps ! k)) tx)"
  unfolding collides_loop_iff by (metis in_set_conv_nth)














section \<open>The retry budget\<close>

text \<open>
  The loop from any value of \<^verbatim>\<open>tries\<close>: the number of attempts, the position of an
  accepted attempt, and the value of \<^verbatim>\<open>tries\<close> after the loop.
\<close>

lemma place_tries_props:
  "place_tries h w a inhs origin0 c i ents bnds boxes tries e sd = (tries', outcomes, e', sd') \<Longrightarrow>
     length outcomes \<le> nat (MAX_TRIES - tries)
     \<and> (\<forall>k<length outcomes. outcomes ! k \<longrightarrow> Suc k = length outcomes)
     \<and> (True \<in> set outcomes \<longrightarrow> tries' = tries + int (length outcomes))
     \<and> (True \<notin> set outcomes \<longrightarrow>
          int (length outcomes) = max 0 (MAX_TRIES - tries) \<and> tries' = max tries MAX_TRIES + 1)"
proof (induction h w a inhs origin0 c i ents bnds boxes tries e sd
        arbitrary: tries' outcomes e' sd' rule: place_tries.induct)
  case (1 h w a inhs origin0 c i ents bnds boxes tries SeedEntity sd)
  show ?case
  proof (cases "tries < MAX_TRIES")
    case False
    with "1.prems" show ?thesis
      by (simp add: place_tries.simps)
  next
    case True
    obtain acc e1 sd1 where
      att: "place_attempt h w a inhs origin0 c i ents bnds boxes SeedEntity sd = (acc, e1, sd1)"
      using prod_cases3 by blast
    show ?thesis
    proof (cases acc)
      case True
      with \<open>tries < MAX_TRIES\<close> att "1.prems" show ?thesis
        by (auto simp: place_tries.simps)
    next
      case False
      obtain t2 o2 e2 sd2 where
        rec: "place_tries h w a inhs origin0 c i ents bnds boxes (tries + 1) e1 sd1
              = (t2, o2, e2, sd2)"
        using prod_cases4 by blast
      from "1.IH" [OF \<open>tries < MAX_TRIES\<close> att [symmetric] refl False rec]
      have ih: "length o2 \<le> nat (MAX_TRIES - (tries + 1))"
        "\<forall>k<length o2. o2 ! k \<longrightarrow> Suc k = length o2"
        "True \<in> set o2 \<longrightarrow> t2 = tries + 1 + int (length o2)"
        "True \<notin> set o2 \<longrightarrow>
           int (length o2) = max 0 (MAX_TRIES - (tries + 1)) \<and> t2 = max (tries + 1) MAX_TRIES + 1"
        by auto
      from \<open>tries < MAX_TRIES\<close> att False rec "1.prems"
      have res: "tries' = t2" "outcomes = False # o2"
        by (auto simp: place_tries.simps [of h w a inhs origin0 c i ents bnds boxes tries])
      show ?thesis
        unfolding res using ih \<open>tries < MAX_TRIES\<close>
        by (auto simp: nth_Cons split: nat.splits)
    qed
  qed
qed

text \<open>
  C6. For one requested instance the loop makes at most 8 attempts. An accepted attempt
  is the last one made, and \<^verbatim>\<open>tries\<close> is then the number of attempts. When all attempts
  are rejected there were 8 of them, \<^verbatim>\<open>tries\<close> ends at 9, and the round of the loop
  over the instances leaves the entities, their bounds and their boxes as they were and
  goes on to the next instance.
\<close>

theorem place_tries_budget:
  "(case place_tries h w a inhs origin0 c i ents bnds boxes 0 e sd of
      (tries, outcomes, e', sd') \<Rightarrow>
        length outcomes \<le> 8
        \<and> (\<forall>k<length outcomes. outcomes ! k \<longrightarrow> Suc k = length outcomes)
        \<and> (True \<in> set outcomes \<longrightarrow> tries = int (length outcomes))
        \<and> (True \<notin> set outcomes \<longrightarrow>
             length outcomes = 8 \<and> tries = 9
             \<and> place_entity h w a inhs origin0 n c i (ents, bnds, boxes, e, sd)
               = ((ents, bnds, boxes, e', sd'), False)))"
proof -
  obtain t os e' sd' where
    r: "place_tries h w a inhs origin0 c i ents bnds boxes 0 e sd = (t, os, e', sd')"
    using prod_cases4 by blast
  from place_tries_props [OF r]
  have p: "length os \<le> nat (MAX_TRIES - 0)"
    "\<forall>k<length os. os ! k \<longrightarrow> Suc k = length os"
    "True \<in> set os \<longrightarrow> t = 0 + int (length os)"
    "True \<notin> set os \<longrightarrow> int (length os) = max 0 (MAX_TRIES - 0) \<and> t = max 0 MAX_TRIES + 1"
    by blast+
  show ?thesis
    unfolding r using p
    by (auto simp: MAX_TRIES_def place_entity_def r)
qed

text \<open>In an engine that rejects every candidate: 8 attempts, and no entity is added.\<close>

theorem place_tries_budget_witness:
  "(case place_tries reject_host plain_world plain_args [] (idVec3 0 0 0) plain_class 0
           [] [] [] 0 plain_entity 7 of
      (tries, outcomes, e', sd') \<Rightarrow>
        outcomes = [False, False, False, False, False, False, False, False]
        \<and> tries = 9
        \<and> place_entity reject_host plain_world plain_args [] (idVec3 0 0 0) 40 plain_class 0
             ([], [], [], plain_entity, 7)
           = (([], [], [], e', sd'), False))"
proof -
  have att: "fst (place_attempt reject_host plain_world plain_args [] (idVec3 0 0 0)
                    plain_class 0 [] [] [] e sd) = False" for e sd
    by (simp add: place_attempt_def reject_host_def plain_host_def Let_def split_def
        split: option.splits prod.splits)
  have step: "tries < MAX_TRIES \<Longrightarrow>
     fst (snd (place_tries reject_host plain_world plain_args [] (idVec3 0 0 0) plain_class 0
                 [] [] [] tries e sd))
     = False # fst (snd (place_tries reject_host plain_world plain_args [] (idVec3 0 0 0)
           plain_class 0 [] [] [] (tries + 1)
           (fst (snd (place_attempt reject_host plain_world plain_args [] (idVec3 0 0 0)
                        plain_class 0 [] [] [] e sd)))
           (snd (snd (place_attempt reject_host plain_world plain_args [] (idVec3 0 0 0)
                        plain_class 0 [] [] [] e sd)))))" for tries e sd
    using att [of e sd]
    by (subst place_tries.simps) (simp add: split_def)
  have stop: "\<not> tries < MAX_TRIES \<Longrightarrow>
     fst (snd (place_tries reject_host plain_world plain_args [] (idVec3 0 0 0) plain_class 0
                 [] [] [] tries e sd)) = []" for tries e sd
    by (subst place_tries.simps) simp
  have os: "fst (snd (place_tries reject_host plain_world plain_args [] (idVec3 0 0 0)
                        plain_class 0 [] [] [] 0 plain_entity 7))
        = [False, False, False, False, False, False, False, False]"
    by (simp add: step stop MAX_TRIES_def)
  show ?thesis
    using os place_tries_budget [where h = reject_host and w = plain_world and a = plain_args
        and inhs = "[]" and ?origin0.0 = "idVec3 0 0 0" and c = plain_class and i = 0
        and ents = "[]" and bnds = "[]" and boxes = "[]" and e = plain_entity and sd = 7
        and n = 40]
    by (auto simp: split_def)
qed

text \<open>
  A remark on line 2527: an attempt accepted as the eighth leaves \<^verbatim>\<open>tries\<close> at 8, so
  the test \<^verbatim>\<open>tries >= MAX_TRIES\<close> skips the instance all the same.
\<close>

lemma eighth_accept_skipped:
  assumes "place_tries h w a inhs origin0 c i ents bnds boxes 0 e sd = (tries, outcomes, e', sd')"
    and "length outcomes = 8"
  shows "place_entity h w a inhs origin0 n c i (ents, bnds, boxes, e, sd)
         = ((ents, bnds, boxes, e', sd'), False)"
proof -
  from place_tries_props [OF assms(1)] assms(2)
  have "tries = 8 \<or> tries = 9"
    by (cases "True \<in> set outcomes") (auto simp: MAX_TRIES_def)
  then show ?thesis
    by (auto simp: place_entity_def assms(1) MAX_TRIES_def)
qed

section \<open>Determinism of the distribution\<close>

lemma seed_update_cong:
  assumes "c\<lparr>cls_seed := 0\<rparr> = c'\<lparr>cls_seed := 0\<rparr>"
  shows "c\<lparr>cls_seed := v\<rparr> = c'\<lparr>cls_seed := v\<rparr>"
proof -
  have "(c\<lparr>cls_seed := 0\<rparr>)\<lparr>cls_seed := v\<rparr> = (c'\<lparr>cls_seed := 0\<rparr>)\<lparr>cls_seed := v\<rparr>"
    by (simp only: assms)
  then show ?thesis by simp
qed

text \<open>The seeds given to the classes do not depend on the seeds they had.\<close>

lemma assign_seeds_cong:
  "map (\<lambda>c. c\<lparr>cls_seed := 0\<rparr>) cs = map (\<lambda>c. c\<lparr>cls_seed := 0\<rparr>) cs' \<Longrightarrow>
   assign_seeds cs sd = assign_seeds cs' sd"
proof (induction cs arbitrary: cs' sd)
  case Nil
  then show ?case by simp
next
  case (Cons c cs)
  then obtain c' cs'' where cs': "cs' = c' # cs''" by (cases cs') auto
  with Cons.prems have hd: "c\<lparr>cls_seed := 0\<rparr> = c'\<lparr>cls_seed := 0\<rparr>"
    and tl: "map (\<lambda>c. c\<lparr>cls_seed := 0\<rparr>) cs = map (\<lambda>c. c\<lparr>cls_seed := 0\<rparr>) cs''"
    by auto
  show ?case
    unfolding cs' using Cons.IH [OF tl] seed_update_cong [OF hd]
    by (simp add: Let_def split_def)
qed

text \<open>
  The placement reads neither \<^verbatim>\<open>m_iSeed\<close> nor \<^verbatim>\<open>m_Entities\<close> nor the pseudo classes
  of the state it starts in, and \<^verbatim>\<open>m_iSeed_2\<close> is the stored seed after the reseeding.
\<close>

lemma PlaceEntities_cong:
  assumes "same_tables s s'"
  shows "m_Entities (PlaceEntities h w a u (reseed s)) = m_Entities (PlaceEntities h w a u (reseed s'))
    \<and> m_Classes (PlaceEntities h w a u (reseed s)) = m_Classes (PlaceEntities h w a u (reseed s'))
    \<and> m_Skins (PlaceEntities h w a u (reseed s)) = m_Skins (PlaceEntities h w a u (reseed s'))
    \<and> m_bCombine (PlaceEntities h w a u (reseed s)) = m_bCombine (PlaceEntities h w a u (reseed s'))
    \<and> m_iNumPVSAreas (PlaceEntities h w a u (reseed s))
      = m_iNumPVSAreas (PlaceEntities h w a u (reseed s'))"
proof -
  from assms have eq: "m_iOrgSeed s = m_iOrgSeed s'" "m_Inhibitors s = m_Inhibitors s'"
    "m_Skins s = m_Skins s'" "m_origin s = m_origin s'" "m_iNumEntities s = m_iNumEntities s'"
    "m_bCombine s = m_bCombine s'" "m_iNumPVSAreas s = m_iNumPVSAreas s'"
    and cl: "map (\<lambda>c. c\<lparr>cls_seed := 0\<rparr>) (filter (\<lambda>c. \<not> cls_pseudo c) (m_Classes s))
           = map (\<lambda>c. c\<lparr>cls_seed := 0\<rparr>) (filter (\<lambda>c. \<not> cls_pseudo c) (m_Classes s'))"
    by (simp_all add: same_tables_def real_classes_def)
  have as: "assign_seeds (filter (\<lambda>c. \<not> cls_pseudo c) (m_Classes s)) sd
          = assign_seeds (filter (\<lambda>c. \<not> cls_pseudo c) (m_Classes s')) sd" for sd
    by (rule assign_seeds_cong [OF cl])
  show ?thesis
    by (simp add: PlaceEntities_def reseed_def Let_def split_def eq as)
qed

lemma CombineEntities_cong:
  assumes "m_Entities s = m_Entities s'" "m_Classes s = m_Classes s'"
    "m_bCombine s = m_bCombine s'" "m_iNumPVSAreas s = m_iNumPVSAreas s'"
  shows "m_Entities (CombineEntities h a uc ua s) = m_Entities (CombineEntities h a uc ua s')
     \<and> m_Classes (CombineEntities h a uc ua s) = m_Classes (CombineEntities h a uc ua s')"
  by (simp add: CombineEntities_def Let_def split_def assms)

text \<open>
  In the engine of the closed examples every attempt of a class without restrictions is
  accepted, so the distribution of two rocks places two entities.
\<close>

lemma RandomFloat_range: "0 \<le> fst (RandomFloat sd) \<and> fst (RandomFloat sd) < 1"
proof -
  have "unat ((1664525 * sd + 1013904223) AND IEEE_MASK) \<le> unat IEEE_MASK"
    by (simp add: word_and_le1 word_le_nat_alt [symmetric])
  then have "unat ((1664525 * sd + 1013904223) AND IEEE_MASK) < 2 ^ 23"
    by (simp add: IEEE_MASK_def)
  then have "real (unat ((1664525 * sd + 1013904223) AND IEEE_MASK)) < real (2 ^ 23)"
    by (simp only: of_nat_less_iff)
  moreover have "0 \<le> real (unat ((1664525 * sd + 1013904223) AND IEEE_MASK))"
    by (simp only: of_nat_0_le_iff)
  ultimately show ?thesis
    by (simp add: RandomFloat_def Let_def)
qed

lemma trunc_RandomFloat: "trunc (fst (RandomFloat sd)) = 0"
  using RandomFloat_range [of sd] by (simp add: trunc_def floor_eq_iff)

lemma collides_plain: "\<not> collides_loop plain_host tb tx ps"
  by (simp add: collides_loop_iff plain_host_def)

lemma RandomFloat_not_neg: "\<not> fst (RandomFloat sd) < 0"
  using RandomFloat_range [of sd] by simp

lemma RandomFloat_not_gt: "\<not> 1 < fst (RandomFloat sd)"
  using RandomFloat_range [of sd] by simp

lemma place_attempt_plain:
  "fst (place_attempt plain_host w plain_args [] (idVec3 0 0 0) (two_rocks\<lparr>cls_seed := v\<rparr>) i
          ents bnds boxes e sd)"
  by (simp add: place_attempt_def candidate_origin_def func_probability_def map_probability_def
      material_probability_def floor_entity_def z_band_def sink_offset_rotate_def collision_def
      collides_plain two_rocks_def plain_class_def plain_args_def Let_def split_def
      RandomFloat_not_neg RandomFloat_not_gt)
    (simp add: plain_host_def)

lemma place_tries_plain:
  "fst (place_tries plain_host w plain_args [] (idVec3 0 0 0) (two_rocks\<lparr>cls_seed := v\<rparr>) i
          ents bnds boxes 0 e sd) = 1"
  by (subst place_tries.simps) (simp add: MAX_TRIES_def split_def place_attempt_plain)

lemma place_entity_plain:
  "length (fst (fst (place_entity plain_host w plain_args [] (idVec3 0 0 0) n
      (two_rocks\<lparr>cls_seed := v\<rparr>) i (ents, bnds, boxes, e, sd)))) = Suc (length ents)
   \<and> snd (place_entity plain_host w plain_args [] (idVec3 0 0 0) n
      (two_rocks\<lparr>cls_seed := v\<rparr>) i (ents, bnds, boxes, e, sd))
     = (n \<le> int (Suc (length ents)))"
  by (simp add: place_entity_def split_def Let_def place_tries_plain MAX_TRIES_def)

lemma place_entities_plain:
  "int (length ents + k) \<le> n \<Longrightarrow>
   length (fst (place_entities plain_host w plain_args [] (idVec3 0 0 0) n
      (two_rocks\<lparr>cls_seed := v\<rparr>) i k (ents, bnds, boxes, e, sd))) = length ents + k"
proof (induction k arbitrary: ents bnds boxes e sd)
  case 0
  then show ?case by simp
next
  case (Suc k)
  obtain ents' bnds' boxes' e' sd' stop where
    pe: "place_entity plain_host w plain_args [] (idVec3 0 0 0) n (two_rocks\<lparr>cls_seed := v\<rparr>) i
           (ents, bnds, boxes, e, sd) = ((ents', bnds', boxes', e', sd'), stop)"
    by (metis prod.collapse)
  from place_entity_plain [of w n v i ents bnds boxes e sd] pe
  have len: "length ents' = Suc (length ents)" and stop: "stop = (n \<le> int (Suc (length ents)))"
    by simp_all
  show ?case
  proof (cases stop)
    case True
    with stop Suc.prems have "k = 0" by simp
    with True pe len show ?thesis by simp
  next
    case False
    from Suc.prems len have "int (length ents' + k) \<le> n" by simp
    from Suc.IH [OF this] False pe len show ?thesis by simp
  qed
qed

lemma shuffle_one: "fst (shuffle (Suc 0) sd) = [0]"
  by (simp add: shuffle_def shuffle_step_def split_def Let_def trunc_RandomFloat)

lemma place_two:
  "length (fst (place_entities plain_host plain_world plain_args [] (idVec3 0 0 0) 40
          (two_rocks\<lparr>cls_seed := v\<rparr>) 0 2 ([], [], [], plain_entity, sd))) = 2"
  using place_entities_plain [of "[]" 2 40 plain_world v 0 "[]" "[]" plain_entity sd] by simp

lemma PlaceEntities_two:
  "length (m_Entities
     (PlaceEntities plain_host plain_world plain_args plain_entity (reseed fresh_seed))) = 2"
proof -
  have c: "\<not> cls_pseudo two_rocks" "\<not> cls_watch (two_rocks\<lparr>cls_seed := v\<rparr>)"
    "iEntities (two_rocks\<lparr>cls_seed := v\<rparr>) = 2" for v
    by (simp_all add: two_rocks_def plain_class_def iEntities_def)
  show ?thesis
    by (simp add: PlaceEntities_def reseed_def fresh_seed_def plain_seed_def split_def Let_def
        shuffle_one watch_class_def c place_two)
qed

text \<open>
  Two states of a SEED have the same stored seed, the same classes apart from pseudo
  classes and class seeds, the same inhibitors and the same settings; they may differ in
  both generators, in their entities and in their pseudo classes. After the reseeding
  from the stored seed, in the same world and with the same contents of the locals that
  have no initializer, the placement gives the same list of entities from both, and so
  does the whole of \<^verbatim>\<open>PrepareEntities\<close>, combiner included.
\<close>

lemma PrepareEntities_same_locals:
  assumes "same_tables s s'"
  shows "m_Entities (PlaceEntities h w a u (reseed s))
         = m_Entities (PlaceEntities h w a u (reseed s'))
       \<and> m_Entities (PrepareEntities h w a u uc ua (reseed s))
         = m_Entities (PrepareEntities h w a u uc ua (reseed s'))"
  unfolding PrepareEntities_def
  using PlaceEntities_cong [OF assms, of h w a u] CombineEntities_cong
  by blast

text \<open>
  A fresh SEED and the same SEED after use: different states, the same distribution, of
  two entities.
\<close>

lemma PrepareEntities_fresh_used:
  "same_tables fresh_seed used_seed
   \<and> m_iSeed fresh_seed \<noteq> m_iSeed used_seed
   \<and> m_iSeed_2 fresh_seed \<noteq> m_iSeed_2 used_seed
   \<and> m_Entities fresh_seed \<noteq> m_Entities used_seed
   \<and> m_Classes fresh_seed \<noteq> m_Classes used_seed
   \<and> length (m_Entities
        (PlaceEntities plain_host plain_world plain_args plain_entity (reseed fresh_seed))) = 2
   \<and> m_Entities (PlaceEntities plain_host plain_world plain_args plain_entity (reseed fresh_seed))
     = m_Entities (PlaceEntities plain_host plain_world plain_args plain_entity (reseed used_seed))
   \<and> m_Entities (PrepareEntities plain_host plain_world plain_args plain_entity plain_class 0
                   (reseed fresh_seed))
     = m_Entities (PrepareEntities plain_host plain_world plain_args plain_entity plain_class 0
                     (reseed used_seed))"
proof -
  have same: "same_tables fresh_seed used_seed"
    by (simp add: same_tables_def real_classes_def fresh_seed_def used_seed_def plain_seed_def
        two_rocks_def plain_class_def)
  have diff: "m_iSeed fresh_seed \<noteq> m_iSeed used_seed"
    "m_iSeed_2 fresh_seed \<noteq> m_iSeed_2 used_seed"
    "m_Entities fresh_seed \<noteq> m_Entities used_seed"
    "m_Classes fresh_seed \<noteq> m_Classes used_seed"
    by (simp_all add: fresh_seed_def used_seed_def plain_seed_def)
  from same diff PlaceEntities_two PrepareEntities_same_locals [OF same] show ?thesis
    by blast
qed

subsection \<open>The local SeedEntity\<close>

text \<open>
  The local \<^verbatim>\<open>SeedEntity\<close> of \<^verbatim>\<open>PrepareEntities\<close> is declared without an initializer
  (line 1779). An attempt that is accepted has assigned its origin and its angles, and
  lines 2529 to 2561 assign the other six members, so an entity that the placement
  generates does not depend on what the local held.
\<close>

lemma floor_entity_origin:
  "ent_origin e = ent_origin e' \<Longrightarrow>
   ent_origin (floor_entity h w a c o0 e) = ent_origin (floor_entity h w a c o0 e')"
  by (simp add: floor_entity_def Let_def split_def)

lemma sink_offset_rotate_indep:
  "ent_origin e = ent_origin e' \<Longrightarrow>
   ent_origin (fst (sink_offset_rotate h a c e sd)) = ent_origin (fst (sink_offset_rotate h a c e' sd))
   \<and> ent_angles (fst (sink_offset_rotate h a c e sd)) = ent_angles (fst (sink_offset_rotate h a c e' sd))
   \<and> snd (sink_offset_rotate h a c e sd) = snd (sink_offset_rotate h a c e' sd)"
  by (simp add: sink_offset_rotate_def Let_def split_def)

lemma entity_box_indep:
  "ent_origin e = ent_origin e' \<Longrightarrow> ent_angles e = ent_angles e' \<Longrightarrow>
   entity_box h c e = entity_box h c e' \<and> entity_bounds h c e = entity_bounds h c e'"
  by (simp add: entity_box_def entity_bounds_def)

lemma collision_indep:
  "ent_origin e = ent_origin e' \<Longrightarrow> ent_angles e = ent_angles e' \<Longrightarrow>
   collision h a c ents bnds boxes e = collision h a c ents bnds boxes e'"
  by (simp add: collision_def entity_box_def entity_bounds_def)

lemma place_attempt_indep:
  "fst (place_attempt h w a inhs o0 c i ents bnds boxes e sd)
     = fst (place_attempt h w a inhs o0 c i ents bnds boxes e' sd)
   \<and> snd (snd (place_attempt h w a inhs o0 c i ents bnds boxes e sd))
     = snd (snd (place_attempt h w a inhs o0 c i ents bnds boxes e' sd))
   \<and> (fst (place_attempt h w a inhs o0 c i ents bnds boxes e sd) \<longrightarrow>
        ent_origin (fst (snd (place_attempt h w a inhs o0 c i ents bnds boxes e sd)))
          = ent_origin (fst (snd (place_attempt h w a inhs o0 c i ents bnds boxes e' sd)))
        \<and> ent_angles (fst (snd (place_attempt h w a inhs o0 c i ents bnds boxes e sd)))
          = ent_angles (fst (snd (place_attempt h w a inhs o0 c i ents bnds boxes e' sd))))"
proof -
  let ?f = "\<lambda>e x. floor_entity h w a c o0 (e\<lparr>ent_origin := x\<rparr>)"
  have fl: "ent_origin (?f e x) = ent_origin (?f e' x)" for x
    by (rule floor_entity_origin) simp
  have so: "ent_origin (fst (sink_offset_rotate h a c (?f e x) s))
          = ent_origin (fst (sink_offset_rotate h a c (?f e' x) s))"
    "ent_angles (fst (sink_offset_rotate h a c (?f e x) s))
          = ent_angles (fst (sink_offset_rotate h a c (?f e' x) s))"
    "snd (sink_offset_rotate h a c (?f e x) s) = snd (sink_offset_rotate h a c (?f e' x) s)" for x s
    using sink_offset_rotate_indep [OF fl [of x], where h = h and a = a and c = c and sd = s]
    by simp_all
  have bx: "entity_box h c (fst (sink_offset_rotate h a c (?f e x) s))
          = entity_box h c (fst (sink_offset_rotate h a c (?f e' x) s))" for x s
    using entity_box_indep [OF so(1) so(2)] by simp
  have co: "collision h a c ents bnds boxes (fst (sink_offset_rotate h a c (?f e x) s))
          = collision h a c ents bnds boxes (fst (sink_offset_rotate h a c (?f e' x) s))" for x s
    using collision_indep [OF so(1) so(2)] by simp
  show ?thesis
    by (simp add: place_attempt_def Let_def split_def fl so bx co split: option.splits)
qed

lemma place_tries_indep:
  "fst (place_tries h w a inhs o0 c i ents bnds boxes tries e sd)
     = fst (place_tries h w a inhs o0 c i ents bnds boxes tries e' sd)
   \<and> fst (snd (place_tries h w a inhs o0 c i ents bnds boxes tries e sd))
     = fst (snd (place_tries h w a inhs o0 c i ents bnds boxes tries e' sd))
   \<and> snd (snd (snd (place_tries h w a inhs o0 c i ents bnds boxes tries e sd)))
     = snd (snd (snd (place_tries h w a inhs o0 c i ents bnds boxes tries e' sd)))
   \<and> (True \<in> set (fst (snd (place_tries h w a inhs o0 c i ents bnds boxes tries e sd))) \<longrightarrow>
        ent_origin (fst (snd (snd (place_tries h w a inhs o0 c i ents bnds boxes tries e sd))))
          = ent_origin (fst (snd (snd (place_tries h w a inhs o0 c i ents bnds boxes tries e' sd))))
        \<and> ent_angles (fst (snd (snd (place_tries h w a inhs o0 c i ents bnds boxes tries e sd))))
          = ent_angles (fst (snd (snd (place_tries h w a inhs o0 c i ents bnds boxes tries e' sd)))))"
proof (induction h w a inhs o0 c i ents bnds boxes tries e sd arbitrary: e'
        rule: place_tries.induct)
  case (1 h w a inhs o0 c i ents bnds boxes tries e sd)
  show ?case
  proof (cases "tries < MAX_TRIES")
    case False
    then show ?thesis
      by (simp add: place_tries.simps)
  next
    case True
    obtain acc e1 sd1 where
      att: "place_attempt h w a inhs o0 c i ents bnds boxes e sd = (acc, e1, sd1)"
      using prod_cases3 by blast
    obtain acc' e1' sd1' where
      att': "place_attempt h w a inhs o0 c i ents bnds boxes e' sd = (acc', e1', sd1')"
      using prod_cases3 by blast
    from place_attempt_indep [of h w a inhs o0 c i ents bnds boxes e sd e'] att att'
    have same: "acc' = acc" "sd1' = sd1"
      "acc \<longrightarrow> ent_origin e1 = ent_origin e1' \<and> ent_angles e1 = ent_angles e1'"
      by simp_all
    show ?thesis
    proof (cases acc)
      case True
      with \<open>tries < MAX_TRIES\<close> att att' same show ?thesis
        by (simp add: place_tries.simps [of h w a inhs o0 c i ents bnds boxes tries])
    next
      case False
      from "1.IH" [OF \<open>tries < MAX_TRIES\<close> att [symmetric] refl False, of e1']
        \<open>tries < MAX_TRIES\<close> att att' same False
      show ?thesis
        by (simp add: place_tries.simps [of h w a inhs o0 c i ents bnds boxes tries] split_def)
    qed
  qed
qed

lemma finish_entity_indep:
  "ent_origin e = ent_origin e' \<Longrightarrow> ent_angles e = ent_angles e' \<Longrightarrow>
   finish_entity h c i e sd = finish_entity h c i e' sd"
  by (cases e; cases e') (simp add: finish_entity_def Let_def split_def)

lemma place_tries_accepted:
  "fst (place_tries h w a inhs o0 c i ents bnds boxes 0 e sd) < MAX_TRIES \<Longrightarrow>
   True \<in> set (fst (snd (place_tries h w a inhs o0 c i ents bnds boxes 0 e sd)))"
  using place_tries_props [of h w a inhs o0 c i ents bnds boxes 0 e sd
      "fst (place_tries h w a inhs o0 c i ents bnds boxes 0 e sd)"
      "fst (snd (place_tries h w a inhs o0 c i ents bnds boxes 0 e sd))"
      "fst (snd (snd (place_tries h w a inhs o0 c i ents bnds boxes 0 e sd)))"
      "snd (snd (snd (place_tries h w a inhs o0 c i ents bnds boxes 0 e sd)))"]
  by (auto simp: MAX_TRIES_def)

lemma place_entity_indep:
  "placed (fst (place_entity h w a inhs o0 n c i (ents, bnds, boxes, e, sd)))
     = placed (fst (place_entity h w a inhs o0 n c i (ents, bnds, boxes, e', sd)))
   \<and> snd (place_entity h w a inhs o0 n c i (ents, bnds, boxes, e, sd))
     = snd (place_entity h w a inhs o0 n c i (ents, bnds, boxes, e', sd))"
proof -
  let ?P = "place_tries h w a inhs o0 c i ents bnds boxes 0 e sd"
  let ?Q = "place_tries h w a inhs o0 c i ents bnds boxes 0 e' sd"
  from place_tries_indep [of h w a inhs o0 c i ents bnds boxes 0 e sd e']
  have t: "fst ?Q = fst ?P" and s: "snd (snd (snd ?Q)) = snd (snd (snd ?P))"
    and oa: "True \<in> set (fst (snd ?P)) \<longrightarrow>
        ent_origin (fst (snd (snd ?P))) = ent_origin (fst (snd (snd ?Q)))
        \<and> ent_angles (fst (snd (snd ?P))) = ent_angles (fst (snd (snd ?Q)))"
    by simp_all
  show ?thesis
  proof (cases "fst ?P < MAX_TRIES")
    case False
    with t show ?thesis
      by (simp add: place_entity_def placed_def split_def s)
  next
    case True
    from place_tries_accepted [OF True] oa
    have "finish_entity h c i (fst (snd (snd ?P))) (snd (snd (snd ?P)))
        = finish_entity h c i (fst (snd (snd ?Q))) (snd (snd (snd ?P)))"
      by (intro finish_entity_indep) simp_all
    with True t show ?thesis
      by (simp add: place_entity_def placed_def split_def Let_def s)
  qed
qed

lemma place_entity_placed:
  assumes "placed st = placed st'"
  shows "placed (fst (place_entity h w a inhs o0 n c i st))
           = placed (fst (place_entity h w a inhs o0 n c i st'))
         \<and> snd (place_entity h w a inhs o0 n c i st) = snd (place_entity h w a inhs o0 n c i st')"
proof -
  obtain ents bnds boxes e sd where st: "st = (ents, bnds, boxes, e, sd)"
    using prod_cases5 by blast
  obtain ents' bnds' boxes' e' sd' where st': "st' = (ents', bnds', boxes', e', sd')"
    using prod_cases5 by blast
  from assms have "ents' = ents" "bnds' = bnds" "boxes' = boxes" "sd' = sd"
    by (simp_all add: placed_def st st')
  with place_entity_indep [of h w a inhs o0 n c i ents bnds boxes e sd e'] show ?thesis
    by (simp add: st st')
qed

lemma place_entities_placed:
  "placed st = placed st' \<Longrightarrow>
   placed (place_entities h w a inhs o0 n c i k st) = placed (place_entities h w a inhs o0 n c i k st')"
proof (induction k arbitrary: st st')
  case 0
  then show ?case by simp
next
  case (Suc k)
  from place_entity_placed [OF Suc.prems, of h w a inhs o0 n c i]
  have p: "placed (fst (place_entity h w a inhs o0 n c i st))
           = placed (fst (place_entity h w a inhs o0 n c i st'))"
    and q: "snd (place_entity h w a inhs o0 n c i st) = snd (place_entity h w a inhs o0 n c i st')"
    by simp_all
  show ?case
    using p q Suc.IH [OF p] by (simp add: split_def)
qed

lemma place_classes_placed:
  "placed st = placed st' \<Longrightarrow>
   placed (place_classes h w a inhs o0 n classes idxs st)
     = placed (place_classes h w a inhs o0 n classes idxs st')"
proof (induction idxs arbitrary: st st')
  case Nil
  then show ?case by simp
next
  case (Cons i idxs)
  obtain ents bnds boxes e sd where st: "st = (ents, bnds, boxes, e, sd)"
    using prod_cases5 by blast
  obtain ents' bnds' boxes' e' sd' where st': "st' = (ents', bnds', boxes', e', sd')"
    using prod_cases5 by blast
  from Cons.prems have eq: "ents' = ents" "bnds' = bnds" "boxes' = boxes" "sd' = sd"
    by (simp_all add: placed_def st st')
  have inner: "placed (place_entities h w a inhs o0 n (classes ! i) i (nat (iEntities (classes ! i)))
                  (ents, bnds, boxes, e, cls_seed (classes ! i)))
             = placed (place_entities h w a inhs o0 n (classes ! i) i (nat (iEntities (classes ! i)))
                  (ents, bnds, boxes, e', cls_seed (classes ! i)))"
    by (rule place_entities_placed) (simp add: placed_def)
  show ?case
    using Cons.prems Cons.IH [OF Cons.prems] Cons.IH [OF inner]
    by (simp add: st st' eq)
qed

lemma assign_seeds_watch:
  "map cls_watch (fst (assign_seeds cs sd)) = map cls_watch cs"
  by (induction cs arbitrary: sd) (simp_all add: split_def Let_def)

lemma watch_none:
  "\<forall>i\<in>set idxs. \<not> cls_watch (classes ! i) \<Longrightarrow>
   fold (watch_class h w box classes) idxs st = st"
  by (induction idxs arbitrary: st) (simp_all add: watch_class_def)

text \<open>
  Without a watching class the whole result of the placement is the same whatever the
  local held, and with it the result of \<^verbatim>\<open>PrepareEntities\<close>.
\<close>

lemma PlaceEntities_generated:
  assumes "\<forall>c\<in>set (m_Classes s). cls_pseudo c \<or> \<not> cls_watch c"
  shows "PlaceEntities h w a u s = PlaceEntities h w a u' s"
proof -
  let ?cs = "fst (assign_seeds (filter (\<lambda>c. \<not> cls_pseudo c) (m_Classes s)) (m_iSeed_2 s))"
  from assms have "\<forall>b\<in>set (map cls_watch (filter (\<lambda>c. \<not> cls_pseudo c) (m_Classes s))). \<not> b"
    by auto
  then have "\<forall>b\<in>set (map cls_watch ?cs). \<not> b"
    by (simp only: assign_seeds_watch)
  then have "\<forall>c\<in>set ?cs. \<not> cls_watch c"
    by simp
  then have nw: "\<forall>i\<in>set [0..<length ?cs]. \<not> cls_watch (?cs ! i)"
    by (metis atLeastLessThan_iff nth_mem set_upt)
  have pl: "placed (place_classes h w a inhs o0 n ?cs idxs ([], [], [], u, sd))
          = placed (place_classes h w a inhs o0 n ?cs idxs ([], [], [], u', sd))" for inhs o0 n idxs sd
    by (rule place_classes_placed) (simp add: placed_def)
  have ents: "fst (place_classes h w a inhs o0 n ?cs idxs ([], [], [], u, sd))
          = fst (place_classes h w a inhs o0 n ?cs idxs ([], [], [], u', sd))"
    and sds: "snd (snd (snd (snd (place_classes h w a inhs o0 n ?cs idxs ([], [], [], u, sd)))))
          = snd (snd (snd (snd (place_classes h w a inhs o0 n ?cs idxs ([], [], [], u', sd)))))"
    for inhs o0 n idxs sd
    using pl [of inhs o0 n idxs sd] by (simp_all add: placed_def split_def)
  show ?thesis
    by (simp add: PlaceEntities_def Let_def split_def watch_none [OF nw] ents sds)
qed

lemma PrepareEntities_generated:
  assumes "same_tables s s'" and "\<forall>c\<in>set (m_Classes s'). cls_pseudo c \<or> \<not> cls_watch c"
  shows "m_Entities (PrepareEntities h w a u uc ua (reseed s))
         = m_Entities (PrepareEntities h w a u' uc ua (reseed s'))"
proof -
  from assms(2) have "\<forall>c\<in>set (m_Classes (reseed s')). cls_pseudo c \<or> \<not> cls_watch c"
    by (simp add: reseed_def)
  from PlaceEntities_generated [OF this, of h w a u u']
  have "PrepareEntities h w a u uc ua (reseed s') = PrepareEntities h w a u' uc ua (reseed s')"
    by (simp add: PrepareEntities_def)
  with PrepareEntities_same_locals [OF assms(1), of h w a u uc ua] show ?thesis
    by simp
qed

text \<open>
  The loop over the watched entities (lines 2586 to 2615) assigns origin, angles, skin,
  flags, entity number and class of the local and appends it: the scale and the colour
  of the new entry are those the local held.
\<close>

lemma watched_entity:
  "m_Entities (PrepareEntities plain_host rock_world plain_args u uc ua (reseed watching_seed))
   = [u\<lparr>ent_origin := idVec3 10 20 30, ent_angles := idAngles 0 0 0, ent_skinIdx := 0,
        ent_flags := SEED_ENTITY_EXISTS + SEED_ENTITY_SPAWNED, ent_entity := 0,
        ent_classIdx := 0\<rparr>]"
proof -
  have "m_Entities (PlaceEntities plain_host rock_world plain_args u (reseed watching_seed))
   = [u\<lparr>ent_origin := idVec3 10 20 30, ent_angles := idAngles 0 0 0, ent_skinIdx := 0,
        ent_flags := SEED_ENTITY_EXISTS + SEED_ENTITY_SPAWNED, ent_entity := 0,
        ent_classIdx := 0\<rparr>]"
    by (simp add: PlaceEntities_def reseed_def watching_seed_def plain_seed_def split_def Let_def
        shuffle_one watch_class_def watch_entity_def rock_world_def rock_def SpawnEntityDef_def
        plain_world_def live_origin_def live_axis_def AddSkin_def plain_class_def plain_host_def)
  then show ?thesis
    unfolding PrepareEntities_def
    by (simp add: CombineEntities_def Let_def split_def)
qed

text \<open>
  C2 fails for an entity that a watching class takes over. The SEED watches over the
  rocks of the map and one rock lies in its box; \<^verbatim>\<open>PrepareEntities\<close> runs twice from
  the stored seed, on the same classes and inhibitors, in the same world. The list of
  each run has one entry, at the origin of the rock; its scale and its colour are those
  that the local \<^verbatim>\<open>SeedEntity\<close> held when the function was entered, so the two lists
  differ as soon as the local held other values.
\<close>

theorem watched_instance_uninitialised:
  "map ent_origin (m_Entities (PrepareEntities plain_host rock_world plain_args plain_entity
       plain_class 0 (reseed watching_seed))) = [idVec3 10 20 30]
   \<and> map ent_origin (m_Entities (PrepareEntities plain_host rock_world plain_args stale_entity
       plain_class 0 (reseed watching_seed))) = [idVec3 10 20 30]
   \<and> map ent_scale (m_Entities (PrepareEntities plain_host rock_world plain_args plain_entity
       plain_class 0 (reseed watching_seed))) = [idVec3 1 1 1]
   \<and> map ent_scale (m_Entities (PrepareEntities plain_host rock_world plain_args stale_entity
       plain_class 0 (reseed watching_seed))) = [idVec3 2 2 2]
   \<and> map ent_color (m_Entities (PrepareEntities plain_host rock_world plain_args plain_entity
       plain_class 0 (reseed watching_seed))) = [0]
   \<and> map ent_color (m_Entities (PrepareEntities plain_host rock_world plain_args stale_entity
       plain_class 0 (reseed watching_seed))) = [255]
   \<and> m_Entities (PrepareEntities plain_host rock_world plain_args plain_entity
       plain_class 0 (reseed watching_seed))
     \<noteq> m_Entities (PrepareEntities plain_host rock_world plain_args stale_entity
       plain_class 0 (reseed watching_seed))"
  by (simp add: watched_entity stale_entity_def plain_entity_def)

end
